theory Spec2Isabelle
  imports Complex_Main "HOL-Library.Sublist" "HOL-Library.Multiset"
begin

section \<open>Strings\<close>

text \<open>
  A JavaScript string is modelled by the list of the bytes of its UTF-8 encoding, so the
  placeholder U+2014 (em dash) of \<^verbatim>\<open>core.js\<close> is a three-byte string. The regular
  expressions of the source only test ASCII characters, where a byte is a code unit.
\<close>

definition dash :: string where
  "dash = [CHR 0xE2, CHR 0x80, CHR 0x94]"

definition ascii_ws :: "char \<Rightarrow> bool" where
  "ascii_ws c = (c = CHR 0x09 \<or> c = CHR 0x0A \<or> c = CHR 0x0B \<or> c = CHR 0x0C
     \<or> c = CHR 0x0D \<or> c = CHR 0x20)"

text \<open>
  The white space and line terminators of ECMAScript outside ASCII, in UTF-8: U+00A0,
  U+1680, U+2000 to U+200A, U+2028, U+2029, U+202F, U+205F, U+3000 and U+FEFF.
\<close>

definition wide_ws :: "string list" where
  "wide_ws =
    [[CHR 0xC2, CHR 0xA0],
     [CHR 0xE1, CHR 0x9A, CHR 0x80],
     [CHR 0xE2, CHR 0x80, CHR 0x80], [CHR 0xE2, CHR 0x80, CHR 0x81],
     [CHR 0xE2, CHR 0x80, CHR 0x82], [CHR 0xE2, CHR 0x80, CHR 0x83],
     [CHR 0xE2, CHR 0x80, CHR 0x84], [CHR 0xE2, CHR 0x80, CHR 0x85],
     [CHR 0xE2, CHR 0x80, CHR 0x86], [CHR 0xE2, CHR 0x80, CHR 0x87],
     [CHR 0xE2, CHR 0x80, CHR 0x88], [CHR 0xE2, CHR 0x80, CHR 0x89],
     [CHR 0xE2, CHR 0x80, CHR 0x8A],
     [CHR 0xE2, CHR 0x80, CHR 0xA8], [CHR 0xE2, CHR 0x80, CHR 0xA9],
     [CHR 0xE2, CHR 0x80, CHR 0xAF],
     [CHR 0xE2, CHR 0x81, CHR 0x9F],
     [CHR 0xE3, CHR 0x80, CHR 0x80],
     [CHR 0xEF, CHR 0xBB, CHR 0xBF]]"

text \<open>
  \<open>dropWs pats s\<close> removes white space from the front of \<open>s\<close>: single ASCII bytes, and
  the multi-byte sequences \<open>pats\<close>.
\<close>

function dropWs :: "string list \<Rightarrow> string \<Rightarrow> string" where
  "dropWs pats s =
     (if s \<noteq> [] \<and> ascii_ws (hd s) then dropWs pats (tl s)
      else (case find (\<lambda>w. w \<noteq> [] \<and> prefix w s) pats of
              Some w \<Rightarrow> dropWs pats (drop (length w) s)
            | None \<Rightarrow> s))"
  by pat_completeness auto
termination
proof (relation "measure (\<lambda>(pats, s). length s)")
  show "wf (measure (\<lambda>(pats, s). length s))" by simp
next
  fix pats :: "string list" and s :: string
  assume "s \<noteq> [] \<and> ascii_ws (hd s)"
  then show "((pats, tl s), (pats, s)) \<in> measure (\<lambda>(pats, s). length s)"
    by (cases s) simp_all
next
  fix pats :: "string list" and s w :: string
  assume "\<not> (s \<noteq> [] \<and> ascii_ws (hd s))"
    and f: "find (\<lambda>w. w \<noteq> [] \<and> prefix w s) pats = Some w"
  from f have "w \<noteq> [] \<and> prefix w s"
    by (auto simp: find_Some_iff)
  then show "((pats, drop (length w) s), (pats, s)) \<in> measure (\<lambda>(pats, s). length s)"
    by (cases w) (auto simp: prefix_def)
qed

declare dropWs.simps [simp del]

text \<open>\<^verbatim>\<open>String.prototype.trim\<close>: white space is removed at both ends.\<close>

definition trim :: "string \<Rightarrow> string" where
  "trim s = rev (dropWs (map rev wide_ws) (rev (dropWs wide_ws s)))"

text \<open>
  \<^verbatim>\<open>function clean(s){ return String(s ?? "").trim(); }\<close>
  A missing value (\<^verbatim>\<open>undefined\<close>, as read from an array out of range) is \<open>None\<close>.
\<close>

definition clean :: "string option \<Rightarrow> string" where
  "clean s = trim (case s of None \<Rightarrow> [] | Some t \<Rightarrow> t)"

text \<open>\<^verbatim>\<open>cols[i]\<close>: reading an array out of range gives \<^verbatim>\<open>undefined\<close>.\<close>

definition nth_opt :: "'a list \<Rightarrow> nat \<Rightarrow> 'a option" where
  "nth_opt xs i = (if i < length xs then Some (xs ! i) else None)"

text \<open>\<^verbatim>\<open>s.split(d)\<close> for a one-character separator: never the empty list.\<close>

definition push_char :: "char \<Rightarrow> string list \<Rightarrow> string list" where
  "push_char c ws = (case ws of [] \<Rightarrow> [[c]] | w # rest \<Rightarrow> (c # w) # rest)"

fun split_on :: "char \<Rightarrow> string \<Rightarrow> string list" where
  "split_on d [] = [[]]"
| "split_on d (c # cs) =
     (if c = d then [] # split_on d cs else push_char c (split_on d cs))"

text \<open>\<^verbatim>\<open>text.split(/\r?\n/)\<close>\<close>

fun split_lines :: "string \<Rightarrow> string list" where
  "split_lines [] = [[]]"
| "split_lines [c] = (if c = CHR 0x0A then [[], []] else [[c]])"
| "split_lines (c # d # cs) =
     (if c = CHR 0x0A then [] # split_lines (d # cs)
      else if c = CHR 0x0D \<and> d = CHR 0x0A then [] # split_lines cs
      else push_char c (split_lines (d # cs)))"

text \<open>
  \<^verbatim>\<open>
  function detectDelimiter(text){
    const first = (text.split(/\r?\n/)[0] || "");
    const semi = (first.match(/;/g)||[]).length;
    const comma = (first.match(/,/g)||[]).length;
    return semi >= comma ? ";" : ",";
  }
  \<close>
\<close>

definition detectDelimiter :: "string \<Rightarrow> char" where
  "detectDelimiter text =
     (let first = hd (split_lines text);
          semi = length (filter (\<lambda>c. c = CHR '';'') first);
          comma = length (filter (\<lambda>c. c = CHR '','') first)
      in if semi \<ge> comma then CHR '';'' else CHR '','')"

text \<open>\<^verbatim>\<open>header.indexOf(name)\<close>: the first position, or -1.\<close>

fun indexOf :: "'a list \<Rightarrow> 'a \<Rightarrow> int" where
  "indexOf [] x = -1"
| "indexOf (y # ys) x =
     (if y = x then 0 else (let i = indexOf ys x in if i < 0 then -1 else i + 1))"

text \<open>
  \<^verbatim>\<open>const lines = csvText.split(/\r?\n/).map(l=>l.trim()).filter(Boolean);\<close>
\<close>

definition csvLines :: "string \<Rightarrow> string list" where
  "csvLines csvText = filter (\<lambda>l. l \<noteq> []) (map trim (split_lines csvText))"

section \<open>Column positions\<close>

record columns =
  i_animal :: nat
  i_sexo :: nat
  i_grupo :: nat
  i_dant :: nat
  i_pant :: nat
  i_datual :: nat
  i_patual :: nat

text \<open>\<^verbatim>\<open>idx(name) >= 0 ? idx(name) : k\<close>\<close>

definition idxOr :: "string list \<Rightarrow> string \<Rightarrow> nat \<Rightarrow> nat" where
  "idxOr header name k = (if indexOf header name \<ge> 0 then nat (indexOf header name) else k)"

text \<open>
  \<^verbatim>\<open>
  const i_animal = idx("animal_id") >= 0 ? idx("animal_id") : 0;
  const i_sexo   = idx("sexo") >= 0 ? idx("sexo") : 2;
  const i_grupo  = idx("grupo") >= 0 ? idx("grupo") : 3;
  const i_dant   = idx("data_peso_anterior") >= 0 ? idx("data_peso_anterior") : 4;
  const i_pant   = idx("peso_anterior") >= 0 ? idx("peso_anterior") : 5;
  const i_datual = idx("data_peso_atual") >= 0 ? idx("data_peso_atual") : 6;
  const i_patual = idx("peso_atual") >= 0 ? idx("peso_atual") : 7;
  \<close>
\<close>

definition resolveColumns :: "string list \<Rightarrow> columns" where
  "resolveColumns header =
     \<lparr> i_animal = idxOr header ''animal_id'' 0,
       i_sexo = idxOr header ''sexo'' 2,
       i_grupo = idxOr header ''grupo'' 3,
       i_dant = idxOr header ''data_peso_anterior'' 4,
       i_pant = idxOr header ''peso_anterior'' 5,
       i_datual = idxOr header ''data_peso_atual'' 6,
       i_patual = idxOr header ''peso_atual'' 7 \<rparr>"

text \<open>\<^verbatim>\<open>const header = lines[0].split(delim).map(clean);\<close>\<close>

definition headerOf :: "char \<Rightarrow> string \<Rightarrow> string list" where
  "headerOf delim line = map (\<lambda>c. clean (Some c)) (split_on delim line)"

section \<open>Numbers\<close>

text \<open>
  A JavaScript number is \<open>NaN\<close> or a finite value. Finite values are exact rationals: the
  rounding of IEEE 754 doubles, the sign of zero and the overflow of an arithmetic
  operation to an infinity are outside the model, so a comparison with a threshold can
  differ from the source when the two sides are within a rounding error of each other. \<^verbatim>\<open>undefined\<close> and \<^verbatim>\<open>null\<close> in a numeric field are \<open>NaN\<close> too, since the
  source tests such fields with \<^verbatim>\<open>Number.isFinite\<close> only.
\<close>

datatype num = NaN | Fin rat

fun isFinite :: "num \<Rightarrow> bool" where
  "isFinite NaN = False"
| "isFinite (Fin x) = True"

fun num_add :: "num \<Rightarrow> num \<Rightarrow> num" where
  "num_add (Fin x) (Fin y) = Fin (x + y)"
| "num_add _ _ = NaN"

fun num_sub :: "num \<Rightarrow> num \<Rightarrow> num" where
  "num_sub (Fin x) (Fin y) = Fin (x - y)"
| "num_sub _ _ = NaN"

fun num_mul :: "num \<Rightarrow> num \<Rightarrow> num" where
  "num_mul (Fin x) (Fin y) = Fin (x * y)"
| "num_mul _ _ = NaN"

text \<open>
  Every division of the source is guarded by a test that its divisor is finite and not
  zero; the quotient by zero (an infinity or NaN in JavaScript) is \<open>NaN\<close> here.
\<close>

fun num_div :: "num \<Rightarrow> num \<Rightarrow> num" where
  "num_div (Fin x) (Fin y) = (if y = 0 then NaN else Fin (x / y))"
| "num_div _ _ = NaN"

text \<open>Comparisons with \<open>NaN\<close> are false.\<close>

fun num_lt :: "num \<Rightarrow> num \<Rightarrow> bool" where
  "num_lt (Fin x) (Fin y) = (x < y)"
| "num_lt _ _ = False"

fun num_le :: "num \<Rightarrow> num \<Rightarrow> bool" where
  "num_le (Fin x) (Fin y) = (x \<le> y)"
| "num_le _ _ = False"

definition num_gt :: "num \<Rightarrow> num \<Rightarrow> bool" where
  "num_gt a b = num_lt b a"

definition num_ge :: "num \<Rightarrow> num \<Rightarrow> bool" where
  "num_ge a b = num_le b a"

definition isDigit :: "char \<Rightarrow> bool" where
  "isDigit c = (48 \<le> (of_char c :: nat) \<and> (of_char c :: nat) \<le> 57)"

text \<open>The value of a string of decimal digits (\<^verbatim>\<open>+m[1]\<close> on a match of \<^verbatim>\<open>\d+\<close>).\<close>

definition digitsVal :: "string \<Rightarrow> int" where
  "digitsVal s = foldl (\<lambda>a c. 10 * a + (int (of_char c) - 48)) 0 s"

text \<open>\<^verbatim>\<open>x.replace(",", ".")\<close>: the first comma only.\<close>

fun replaceComma :: "string \<Rightarrow> string" where
  "replaceComma [] = []"
| "replaceComma (c # cs) = (if c = CHR '','' then CHR ''.'' # cs else c # replaceComma cs)"

text \<open>An optional sign in front of a string.\<close>

definition takeSign :: "string \<Rightarrow> bool \<times> string" where
  "takeSign s =
     (case s of
        [] \<Rightarrow> (False, [])
      | c # r \<Rightarrow> if c = CHR ''-'' then (True, r) else if c = CHR ''+'' then (False, r) else (False, s))"

text \<open>
  The exponent part \<^verbatim>\<open>[eE][+-]?[0-9]+\<close> at the start of a string, or 0 when there is none.
\<close>

definition exponentOf :: "string \<Rightarrow> int" where
  "exponentOf s =
     (case s of
        [] \<Rightarrow> 0
      | c # r \<Rightarrow>
          if c = CHR ''e'' \<or> c = CHR ''E'' then
            (let (eneg, r1) = takeSign r; ed = takeWhile isDigit r1
             in if ed = [] then 0 else if eneg then - digitsVal ed else digitsVal ed)
          else 0)"

definition pow10 :: "int \<Rightarrow> rat" where
  "pow10 e = (if e \<ge> 0 then 10 ^ nat e else 1 / 10 ^ nat (- e))"

text \<open>
  \<^verbatim>\<open>parseFloat\<close>: leading white space is skipped and the longest prefix that is a decimal
  literal is read: an optional sign, digits with an optional fraction (or a fraction
  alone), an optional exponent. No such prefix gives \<open>NaN\<close>. The literal
  \<^verbatim>\<open>Infinity\<close>, and a decimal literal whose magnitude is at least \<open>maxMagnitude\<close> (which
  is \<open>2 ^ 1024 - 2 ^ 970\<close>, from where on the nearest double is an infinity), are not
  finite and \<^verbatim>\<open>parseNumber\<close> turns them into \<open>NaN\<close>, so they are \<open>NaN\<close> here.
\<close>

definition maxMagnitude :: rat where
  "maxMagnitude =
     179769313486231580793728971405303415079934132710037826936173778980444968292764750946649017977587207096330286416692887910946555547851940402630657488671505820681908902000708383676273854845817711531764475730270069855571366959622842914819860834936475292719074168444365510704342711559699508093042880177904174497792"

definition parseFloat :: "string \<Rightarrow> num" where
  "parseFloat s0 =
     (let (neg, s1) = takeSign (dropWs wide_ws s0);
          ip = takeWhile isDigit s1;
          s2 = dropWhile isDigit s1;
          (fp, s3) = (case s2 of
                        [] \<Rightarrow> ([], [])
                      | c # r \<Rightarrow> if c = CHR ''.'' then (takeWhile isDigit r, dropWhile isDigit r)
                                else ([], s2))
      in if ip = [] \<and> fp = [] then NaN
         else (let v = (of_int (digitsVal (ip @ fp)) / 10 ^ length fp) * pow10 (exponentOf s3)
               in if v \<ge> maxMagnitude then NaN else Fin (if neg then - v else v)))"

text \<open>
  \<^verbatim>\<open>
  function parseNumber(x){
    x = clean(x);
    if(!x) return NaN;
    x = x.replace(",", ".");
    const n = parseFloat(x);
    return Number.isFinite(n) ? n : NaN;
  }
  \<close>
\<close>

definition parseNumber :: "string option \<Rightarrow> num" where
  "parseNumber x0 =
     (let x = clean x0
      in if x = [] then NaN
         else (let n = parseFloat (replaceComma x) in if isFinite n then n else NaN))"

section \<open>Dates\<close>

text \<open>
  A \<^verbatim>\<open>Date\<close> is its time value: milliseconds since 1970-01-01 UTC. The functions below
  follow the definitions of ECMAScript (MakeDay, MakeDate, TimeClip).
\<close>

definition msPerDay :: int where
  "msPerDay = 86400000"

definition DayFromYear :: "int \<Rightarrow> int" where
  "DayFromYear y = 365 * (y - 1970) + (y - 1969) div 4 - (y - 1901) div 100 + (y - 1601) div 400"

definition InLeapYear :: "int \<Rightarrow> bool" where
  "InLeapYear y = ((y mod 4 = 0 \<and> y mod 100 \<noteq> 0) \<or> y mod 400 = 0)"

text \<open>The number of days of the year before month \<open>mn\<close> (0 is January).\<close>

definition monthStart :: "int \<Rightarrow> bool \<Rightarrow> int" where
  "monthStart mn leap =
     [0, 31, 59, 90, 120, 151, 181, 212, 243, 273, 304, 334] ! nat mn
       + (if leap \<and> mn \<ge> 2 then 1 else 0)"

definition MakeDay :: "int \<Rightarrow> int \<Rightarrow> int \<Rightarrow> int" where
  "MakeDay year month date =
     (let ym = year + month div 12; mn = month mod 12
      in DayFromYear ym + monthStart mn (InLeapYear ym) + date - 1)"

text \<open>
  \<^verbatim>\<open>Date.UTC(y, m, d)\<close> on integers: a year from 0 to 99 means 1900 + year, and a time
  value beyond 8.64e15 ms in absolute value is \<open>NaN\<close> (\<open>None\<close>).
\<close>

definition Date_UTC :: "int \<Rightarrow> int \<Rightarrow> int \<Rightarrow> int option" where
  "Date_UTC y m d =
     (let yr = (if 0 \<le> y \<and> y \<le> 99 then 1900 + y else y);
          t = MakeDay yr m d * msPerDay
      in if \<bar>t\<bar> \<le> 8640000000000000 then Some t else None)"

text \<open>\<^verbatim>\<open>/^(\d{4})-(\d{2})-(\d{2})$/\<close>: the groups are year, month, day.\<close>

definition matchYMD :: "string \<Rightarrow> (string \<times> string \<times> string) option" where
  "matchYMD s =
     (if length s = 10 \<and> list_all isDigit (take 4 s) \<and> s ! 4 = CHR ''-''
         \<and> list_all isDigit (take 2 (drop 5 s)) \<and> s ! 7 = CHR ''-''
         \<and> list_all isDigit (drop 8 s)
      then Some (take 4 s, take 2 (drop 5 s), drop 8 s) else None)"

definition isSep :: "char \<Rightarrow> bool" where
  "isSep c = (c = CHR ''-'' \<or> c = CHR ''/'')"

text \<open>\<^verbatim>\<open>/^(\d{2})[-\/](\d{2})[-\/](\d{4})$/\<close>: the groups are day, month, year.\<close>

definition matchDMY :: "string \<Rightarrow> (string \<times> string \<times> string) option" where
  "matchDMY s =
     (if length s = 10 \<and> list_all isDigit (take 2 s) \<and> isSep (s ! 2)
         \<and> list_all isDigit (take 2 (drop 3 s)) \<and> isSep (s ! 5)
         \<and> list_all isDigit (drop 6 s)
      then Some (take 2 s, take 2 (drop 3 s), drop 6 s) else None)"

text \<open>
  \<^verbatim>\<open>
  function parseDatePT(s){
    s = clean(s);
    if(!s) return null;
    let m = s.match(/^(\d{4})-(\d{2})-(\d{2})$/);
    if(m){
      const y=+m[1], mo=+m[2], d=+m[3];
      const dt = new Date(Date.UTC(y, mo-1, d));
      return Number.isFinite(dt.getTime()) ? dt : null;
    }
    m = s.match(/^(\d{2})[-\/](\d{2})[-\/](\d{4})$/);
    if(m){
      const d=+m[1], mo=+m[2], y=+m[3];
      const dt = new Date(Date.UTC(y, mo-1, d));
      return Number.isFinite(dt.getTime()) ? dt : null;
    }
    return null;
  }
  \<close>
  The result is the time value of the date, \<open>None\<close> for \<^verbatim>\<open>null\<close>.
\<close>

definition parseDatePT :: "string option \<Rightarrow> int option" where
  "parseDatePT s0 =
     (let s = clean s0
      in if s = [] then None
         else (case matchYMD s of
                 Some (y, mo, d) \<Rightarrow> Date_UTC (digitsVal y) (digitsVal mo - 1) (digitsVal d)
               | None \<Rightarrow>
                  (case matchDMY s of
                     Some (d, mo, y) \<Rightarrow> Date_UTC (digitsVal y) (digitsVal mo - 1) (digitsVal d)
                   | None \<Rightarrow> None)))"

text \<open>
  \<^verbatim>\<open>
  function daysBetweenUTC(a,b){
    if(!a || !b) return NaN;
    const ms = b.getTime() - a.getTime();
    return Math.floor(ms / (1000*60*60*24));
  }
  \<close>
\<close>

definition daysBetweenUTC :: "int option \<Rightarrow> int option \<Rightarrow> num" where
  "daysBetweenUTC a b =
     (case (a, b) of
        (Some ta, Some tb) \<Rightarrow> Fin (of_int ((tb - ta) div msPerDay))
      | _ \<Rightarrow> NaN)"

text \<open>
  The calendar fields of a time value (\<^verbatim>\<open>getUTCFullYear\<close>, \<^verbatim>\<open>getUTCMonth\<close> + 1,
  \<^verbatim>\<open>getUTCDate\<close>), computed from the day number in the proleptic Gregorian calendar.
\<close>

definition civil :: "int \<Rightarrow> int \<times> int \<times> int" where
  "civil t =
     (let z = t div msPerDay + 719468;
          era = z div 146097;
          doe = z mod 146097;
          yoe = (doe - doe div 1460 + doe div 36524 - doe div 146096) div 365;
          doy = doe - (365 * yoe + yoe div 4 - yoe div 100);
          mp = (5 * doy + 2) div 153;
          d = doy - (153 * mp + 2) div 5 + 1;
          m = (if mp < 10 then mp + 3 else mp - 9);
          y = yoe + era * 400 + (if m \<le> 2 then 1 else 0)
      in (y, m, d))"

fun showNat :: "nat \<Rightarrow> string" where
  "showNat n =
     (if n < 10 then [char_of (48 + n)] else showNat (n div 10) @ [char_of (48 + n mod 10)])"

declare showNat.simps [simp del]

definition showInt :: "int \<Rightarrow> string" where
  "showInt i = (if i < 0 then CHR ''-'' # showNat (nat (- i)) else showNat (nat i))"

text \<open>\<^verbatim>\<open>String(n).padStart(2,"0")\<close>\<close>

definition pad2 :: "string \<Rightarrow> string" where
  "pad2 s = replicate (2 - length s) (CHR ''0'') @ s"

text \<open>
  \<^verbatim>\<open>
  function isoDateUTC(d){
    const y = d.getUTCFullYear();
    const m = String(d.getUTCMonth()+1).padStart(2,"0");
    const da = String(d.getUTCDate()).padStart(2,"0");
    return `${y}-${m}-${da}`;
  }
  \<close>
  The argument is a \<^verbatim>\<open>Date\<close> object, \<open>None\<close> when it is an invalid date, whose fields
  are all \<^verbatim>\<open>NaN\<close>.
\<close>

definition isoDateUTC :: "int option \<Rightarrow> string" where
  "isoDateUTC d =
     (case d of
        None \<Rightarrow> ''NaN-NaN-NaN''
      | Some t \<Rightarrow> (case civil t of (y, m, da) \<Rightarrow>
          showInt y @ ''-'' @ pad2 (showInt m) @ ''-'' @ pad2 (showInt da)))"

section \<open>Rules\<close>

text \<open>The labels of the source that are not ASCII, as UTF-8 strings.\<close>

definition str_sem_historico :: string where
  \<comment> \<open>em dash, then \<^verbatim>\<open> (sem hist\<close>, o with acute accent, \<^verbatim>\<open>rico)\<close>\<close>
  "str_sem_historico = dash @ '' (sem hist'' @ [CHR 0xC3, CHR 0xB3] @ ''rico)''"

definition str_normal :: string where
  \<comment> \<open>green circle U+1F7E2, then \<^verbatim>\<open> Normal\<close>\<close>
  "str_normal = [CHR 0xF0, CHR 0x9F, CHR 0x9F, CHR 0xA2] @ '' Normal''"

definition str_a_vigiar :: string where
  \<comment> \<open>yellow circle U+1F7E1, then \<^verbatim>\<open> A vigiar\<close>\<close>
  "str_a_vigiar = [CHR 0xF0, CHR 0x9F, CHR 0x9F, CHR 0xA1] @ '' A vigiar''"

definition str_atrasado :: string where
  \<comment> \<open>red circle U+1F534, then \<^verbatim>\<open> Atrasado\<close>\<close>
  "str_atrasado = [CHR 0xF0, CHR 0x9F, CHR 0x94, CHR 0xB4] @ '' Atrasado''"

definition str_media :: string where
  \<comment> \<open>\<^verbatim>\<open>M\<close>, e with acute accent, \<^verbatim>\<open>dia\<close>\<close>
  "str_media = ''M'' @ [CHR 0xC3, CHR 0xA9] @ ''dia''"

text \<open>
  \<^verbatim>\<open>
  function performanceStatus(gmdInd, gmdMediaGrupo){
    if(!Number.isFinite(gmdInd) || !Number.isFinite(gmdMediaGrupo) || gmdMediaGrupo<=0)
      return ["\u2014 (sem hist\u00f3rico)","muted", 9, "none"];
    const r = gmdInd / gmdMediaGrupo;
    if(r >= 0.95) return ["\u{1F7E2} Normal","ok", 3, "g"];
    if(r >= 0.80) return ["\u{1F7E1} A vigiar","warn", 2, "o"];
    return ["\u{1F534} Atrasado","bad", 1, "r"];
  }
  \<close>
\<close>

definition performanceStatus :: "num \<Rightarrow> num \<Rightarrow> string \<times> string \<times> nat \<times> string" where
  "performanceStatus gmdInd gmdMediaGrupo =
     (if \<not> isFinite gmdInd \<or> \<not> isFinite gmdMediaGrupo \<or> num_le gmdMediaGrupo (Fin 0)
      then (str_sem_historico, ''muted'', 9, ''none'')
      else (let r = num_div gmdInd gmdMediaGrupo
            in if num_ge r (Fin (95 / 100)) then (str_normal, ''ok'', 3, ''g'')
               else if num_ge r (Fin (80 / 100)) then (str_a_vigiar, ''warn'', 2, ''o'')
               else (str_atrasado, ''bad'', 1, ''r'')))"

text \<open>
  \<^verbatim>\<open>
  function confidenceByDays(days){
    if(!Number.isFinite(days)) return ["\u2014","muted"];
    if(days < 14) return ["Alta","ok"];
    if(days < 35) return ["M\u00e9dia","warn"];
    return ["Baixa","bad"];
  }
  \<close>
\<close>

definition confidenceByDays :: "num \<Rightarrow> string \<times> string" where
  "confidenceByDays days =
     (if \<not> isFinite days then (dash, ''muted'')
      else if num_lt days (Fin 14) then (''Alta'', ''ok'')
      else if num_lt days (Fin 35) then (str_media, ''warn'')
      else (''Baixa'', ''bad''))"

text \<open>
  \<^verbatim>\<open>toUpperCase\<close> on the ASCII letters. The case mappings of other characters are not
  modelled; the source only compares the result with \<^verbatim>\<open>"F"\<close> and \<^verbatim>\<open>"M"\<close>, which no
  other character maps to.
\<close>

definition upperChar :: "char \<Rightarrow> char" where
  "upperChar c =
     (if 97 \<le> (of_char c :: nat) \<and> (of_char c :: nat) \<le> 122
      then char_of ((of_char c :: nat) - 32) else c)"

definition toUpperCase :: "string \<Rightarrow> string" where
  "toUpperCase s = map upperChar s"

text \<open>
  \<^verbatim>\<open>function factorSexo(sexo){ return (clean(sexo).toUpperCase()==="F") ? 0.92 : 1.00; }\<close>
\<close>

definition factorSexo :: "string \<Rightarrow> num" where
  "factorSexo sexo = (if toUpperCase (clean (Some sexo)) = ''F'' then Fin (92 / 100) else Fin 1)"

text \<open>
  \<^verbatim>\<open>
  function factorMaturidade(peso, sexo){
    const s = clean(sexo).toUpperCase();
    const limiar = (s==="F") ? 460 : 520;
    if(peso < limiar) return 1.00;
    if(peso < limiar + 60) return 0.90;
    return 0.80;
  }
  \<close>
\<close>

definition factorMaturidade :: "num \<Rightarrow> string \<Rightarrow> num" where
  "factorMaturidade peso sexo =
     (let s = toUpperCase (clean (Some sexo));
          limiar = (if s = ''F'' then 460 else 520)
      in if num_lt peso (Fin limiar) then Fin 1
         else if num_lt peso (Fin (limiar + 60)) then Fin (90 / 100)
         else Fin (80 / 100))"

section \<open>Weather\<close>

text \<open>
  \<^verbatim>\<open>
  function factorFromTempMean(t){
    if(!Number.isFinite(t)) return 0.95;
    if(t <= 20) return 1.00;
    if(t <= 25) return 0.95;
    if(t <= 30) return 0.85;
    return 0.70;
  }
  \<close>
\<close>

definition factorFromTempMean :: "num \<Rightarrow> num" where
  "factorFromTempMean t =
     (if \<not> isFinite t then Fin (95 / 100)
      else if num_le t (Fin 20) then Fin 1
      else if num_le t (Fin 25) then Fin (95 / 100)
      else if num_le t (Fin 30) then Fin (85 / 100)
      else Fin (70 / 100))"

text \<open>A cache entry \<^verbatim>\<open>{ tmean, factor }\<close>.\<close>

record pack =
  tmean :: num
  factor :: num

text \<open>
  What one request to the archive gives. \<open>Rejected\<close>: \<^verbatim>\<open>fetch\<close> rejects (the timeout
  aborts it, or the transport fails). \<open>HttpError\<close>: a response whose \<^verbatim>\<open>ok\<close> is false
  (a status outside 2xx). \<open>BadBody\<close>: \<^verbatim>\<open>r.json()\<close> rejects. \<open>Daily temps\<close>: a body
  whose \<^verbatim>\<open>daily.temperature_2m_mean\<close> is the array \<open>temps\<close>, the empty list when the
  field is absent (\<^verbatim>\<open>j?.daily?.temperature_2m_mean || []\<close>). An element is a number, or
  \<^verbatim>\<open>null\<close> (\<open>None\<close>), which \<^verbatim>\<open>a+b\<close> adds as 0.
\<close>

datatype response = Rejected | HttpError | BadBody | Daily "rat option list"

definition sumTemps :: "rat option list \<Rightarrow> rat" where
  "sumTemps temps = foldl (\<lambda>a b. a + (case b of None \<Rightarrow> 0 | Some x \<Rightarrow> x)) 0 temps"

text \<open>The entry that \<^verbatim>\<open>getTempMeanForPeriod\<close> stores for a response.\<close>

definition packOf :: "response \<Rightarrow> pack" where
  "packOf r =
     (case r of
        Daily temps \<Rightarrow>
          if temps = [] then \<lparr> tmean = NaN, factor = Fin (95 / 100) \<rparr>
          else (let tm = Fin (sumTemps temps / of_nat (length temps))
                in \<lparr> tmean = tm, factor = factorFromTempMean tm \<rparr>)
      | _ \<Rightarrow> \<lparr> tmean = NaN, factor = Fin (95 / 100) \<rparr>)"

text \<open>
  The cache \<^verbatim>\<open>meteoCacheMap\<close>, and the log of the requests sent, latest first. The key
  of a request is \<^verbatim>\<open>start|end\<close>, which determines its URL for a given site.
\<close>

record meteo =
  cache :: "string \<rightharpoonup> pack"
  requests :: "string list"

text \<open>
  \<^verbatim>\<open>
  async function getTempMeanForPeriod(site, meteoCacheMap, startUTC, endUTC, timeoutMs){
    const start = isoDateUTC(startUTC);
    const end = isoDateUTC(endUTC);
    const key = `${start}|${end}`;
    if(meteoCacheMap.has(key)) return meteoCacheMap.get(key);
    const url = ...;
    try{
      const r = await fetchWithTimeout(url, timeoutMs);
      if(!r.ok) throw new Error(`HTTP ${r.status}`);
      const j = await r.json();
      const temps = j?.daily?.temperature_2m_mean || [];
      if(!temps.length){
        const pack = { tmean: NaN, factor: 0.95 };
        meteoCacheMap.set(key, pack);
        return pack;
      }
      const tmean = temps.reduce((a,b)=>a+b,0)/temps.length;
      const pack = { tmean, factor: factorFromTempMean(tmean) };
      meteoCacheMap.set(key, pack);
      return pack;
    }catch{
      const pack = { tmean: NaN, factor: 0.95 };
      meteoCacheMap.set(key, pack);
      return pack;
    }
  }
  \<close>
  The function is asynchronous and runs in two steps. \<open>startResolve\<close> is the code up to
  the first \<^verbatim>\<open>await\<close>: the key is looked up, and when it is missing the request is sent.
  \<open>finishResolve\<close> is the code after the response (or the failure) has come: the entry
  is made and stored. Between the two steps of one resolution, other code may run, also
  the steps of other resolutions.
\<close>

definition periodKey :: "int option \<Rightarrow> int option \<Rightarrow> string" where
  "periodKey startUTC endUTC = isoDateUTC startUTC @ ''|'' @ isoDateUTC endUTC"

datatype started = Hit pack | Sent

definition startResolve :: "meteo \<Rightarrow> string \<Rightarrow> started \<times> meteo" where
  "startResolve ms key =
     (case cache ms key of
        Some p \<Rightarrow> (Hit p, ms)
      | None \<Rightarrow> (Sent, ms\<lparr> requests := key # requests ms \<rparr>))"

definition finishResolve :: "meteo \<Rightarrow> string \<Rightarrow> response \<Rightarrow> pack \<times> meteo" where
  "finishResolve ms key r = (let p = packOf r in (p, ms\<lparr> cache := (cache ms)(key \<mapsto> p) \<rparr>))"

text \<open>
  A resolution that is awaited while nothing else runs, as each one in the main loop of
  \<^verbatim>\<open>processCSVText\<close> is: the two steps follow each other. The network is \<open>net\<close>: the
  response that the request for a key gets.
\<close>

definition getTempMeanForPeriod ::
  "(string \<Rightarrow> response) \<Rightarrow> meteo \<Rightarrow> int option \<Rightarrow> int option \<Rightarrow> pack \<times> meteo" where
  "getTempMeanForPeriod net ms startUTC endUTC =
     (let key = periodKey startUTC endUTC
      in case startResolve ms key of
           (Hit p, ms1) \<Rightarrow> (p, ms1)
         | (Sent, ms1) \<Rightarrow> finishResolve ms1 key (net key))"

text \<open>
  The steps of resolutions in the order in which they run: \<open>StartEv key\<close> is the first
  step of a resolution of \<open>key\<close>, and \<open>FinishEv key r\<close> is the second step of one whose
  request got the response \<open>r\<close>.
\<close>

datatype event = StartEv string | FinishEv string response

fun applyEvent :: "meteo \<Rightarrow> event \<Rightarrow> meteo" where
  "applyEvent ms (StartEv key) = snd (startResolve ms key)"
| "applyEvent ms (FinishEv key r) = snd (finishResolve ms key r)"

definition runEvents :: "meteo \<Rightarrow> event list \<Rightarrow> meteo" where
  "runEvents ms evs = foldl applyEvent ms evs"

text \<open>Whether a resolution of \<open>key\<close> that was in flight finishes among the events.\<close>

fun finishes :: "string \<Rightarrow> event \<Rightarrow> bool" where
  "finishes key (StartEv k) = False"
| "finishes key (FinishEv k r) = (k = key)"

text \<open>
  \<^verbatim>\<open>+s.slice(0,4)\<close> on a piece of a key: the pieces hold digits and hyphens only. The
  empty string is 0, an optional minus sign with digits is that integer, and anything else
  is \<^verbatim>\<open>NaN\<close>.
\<close>

definition toNumber :: "string \<Rightarrow> int option" where
  "toNumber s =
     (if s = [] then Some 0
      else if list_all isDigit s then Some (digitsVal s)
      else if hd s = CHR ''-'' \<and> tl s \<noteq> [] \<and> list_all isDigit (tl s) then Some (- digitsVal (tl s))
      else None)"

text \<open>\<^verbatim>\<open>s.slice(i, j)\<close> for \<open>0 \<le> i \<le> j\<close>.\<close>

definition slice :: "string \<Rightarrow> nat \<Rightarrow> nat \<Rightarrow> string" where
  "slice s i j = take (j - i) (drop i s)"

text \<open>
  \<^verbatim>\<open>new Date(Date.UTC(+s.slice(0,4), +s.slice(5,7)-1, +s.slice(8,10)))\<close>:
  an invalid date (\<open>None\<close>) when a piece is not a number.
\<close>

definition dateOfKeyPart :: "string \<Rightarrow> int option" where
  "dateOfKeyPart s =
     (case (toNumber (slice s 0 4), toNumber (slice s 5 7), toNumber (slice s 8 10)) of
        (Some y, Some mo, Some d) \<Rightarrow> Date_UTC y (mo - 1) d
      | _ \<Rightarrow> None)"

text \<open>
  \<^verbatim>\<open>
  async function preloadMeteoPeriods(cfg, site, meteoCacheMap, periodKeys, onProgress){
    const keys = Array.from(periodKeys);
    let done = 0;
    const total = keys.length;
    const worker = async () => {
      while(keys.length){
        const key = keys.shift();
        const [s,e] = key.split("|");
        const sD = new Date(Date.UTC(+s.slice(0,4), +s.slice(5,7)-1, +s.slice(8,10)));
        const eD = new Date(Date.UTC(+e.slice(0,4), +e.slice(5,7)-1, +e.slice(8,10)));
        await getTempMeanForPeriod(site, meteoCacheMap, sD, eD, cfg.METEO_TIMEOUT_MS);
        done++;
        if(onProgress) onProgress(done, total);
      }
    };
    const workers = [];
    const n = Math.max(1, Math.min(cfg.METEO_CONCURRENCY, total || 1));
    for(let i=0;i<n;i++) workers.push(worker());
    await Promise.all(workers);
  }
  \<close>
  A worker resolves the range whose dates it reads back from the text of the key; the key
  of that resolution is \<open>derivedKey\<close>, which differs from the key taken from the queue when
  a year does not have four digits.
\<close>

definition derivedKey :: "string \<Rightarrow> string" where
  "derivedKey key =
     (let parts = split_on (CHR ''|'') key;
          s = hd parts;
          e = (case nth_opt parts 1 of None \<Rightarrow> [] | Some x \<Rightarrow> x)
      in periodKey (dateOfKeyPart s) (dateOfKeyPart e))"

text \<open>
  The workers run on one thread. The state of the pool is the queue of the keys not yet
  taken, the keys of the requests in flight (one for each worker that waits) and the
  cache with its log.
\<close>

record pool =
  queue :: "string list"
  inflight :: "string list"
  poolMeteo :: meteo

text \<open>
  A worker that runs takes keys from the queue until a resolution sends a request, for
  which it then waits, or until the queue is empty: a resolution that finds its key in
  the cache returns without waiting for the network, so the worker goes on before any
  response is handled.
\<close>

fun takeKeys :: "pool \<Rightarrow> string list \<Rightarrow> pool" where
  "takeKeys p [] = p\<lparr> queue := [] \<rparr>"
| "takeKeys p (key # rest) =
     (case startResolve (poolMeteo p) (derivedKey key) of
        (Hit v, ms) \<Rightarrow> takeKeys (p\<lparr> poolMeteo := ms \<rparr>) rest
      | (Sent, ms) \<Rightarrow>
          p\<lparr> queue := rest, inflight := inflight p @ [derivedKey key], poolMeteo := ms \<rparr>)"

definition advance :: "pool \<Rightarrow> pool" where
  "advance p = takeKeys p (queue p)"

text \<open>
  The response of the request in flight at position \<open>i\<close> is handled: its entry is stored
  and its worker goes on.
\<close>

definition completeAt :: "(string \<Rightarrow> response) \<Rightarrow> nat \<Rightarrow> pool \<Rightarrow> pool" where
  "completeAt net i p =
     (let k = inflight p ! i
      in advance (p\<lparr> inflight := take i (inflight p) @ drop (Suc i) (inflight p),
                     poolMeteo := snd (finishResolve (poolMeteo p) k (net k)) \<rparr>))"

text \<open>
  The responses are handled one at a time, in an order that the network decides: the
  schedule \<open>sched\<close> gives, for each response handled, the position of its request among
  those in flight (taken modulo their number; 0 when the schedule is used up).
\<close>

function drain :: "(string \<Rightarrow> response) \<Rightarrow> nat list \<Rightarrow> pool \<Rightarrow> meteo" where
  "drain net sched p =
     (if inflight p = [] then poolMeteo p
      else drain net (tl sched)
             (completeAt net ((case sched of [] \<Rightarrow> 0 | c # cs \<Rightarrow> c) mod length (inflight p)) p))"
  by pat_completeness auto
termination
proof (relation "measure (\<lambda>(net, sched, p). length (queue p) + length (inflight p))")
  show "wf (measure (\<lambda>(net, sched, p). length (queue p) + length (inflight p)))" by simp
next
  fix net :: "string \<Rightarrow> response" and sched :: "nat list" and p :: pool
  assume ne: "inflight p \<noteq> []"
  have tk: "length (queue (takeKeys q ks)) + length (inflight (takeKeys q ks))
              \<le> length ks + length (inflight q)" for q ks
  proof (induction ks arbitrary: q)
    case Nil
    then show ?case by simp
  next
    case (Cons k ks)
    show ?case
    proof (cases "cache (poolMeteo q) (derivedKey k)")
      case None
      then show ?thesis by (simp add: startResolve_def)
    next
      case (Some v)
      with Cons [of "q\<lparr> poolMeteo := poolMeteo q \<rparr>"] show ?thesis
        by (simp add: startResolve_def)
    qed
  qed
  let ?i = "(case sched of [] \<Rightarrow> 0 | c # cs \<Rightarrow> c) mod length (inflight p)"
  have i: "?i < length (inflight p)" using ne by simp
  let ?q = "p\<lparr> inflight := take ?i (inflight p) @ drop (Suc ?i) (inflight p),
               poolMeteo := snd (finishResolve (poolMeteo p) (inflight p ! ?i) (net (inflight p ! ?i))) \<rparr>"
  have "length (inflight ?q) < length (inflight p)" using i by simp
  moreover have "queue ?q = queue p" by simp
  ultimately have "length (queue (completeAt net ?i p)) + length (inflight (completeAt net ?i p))
      < length (queue p) + length (inflight p)"
    using tk [of ?q "queue ?q"] by (simp add: completeAt_def advance_def Let_def)
  then show "((net, tl sched, completeAt net ?i p), (net, sched, p))
      \<in> measure (\<lambda>(net, sched, p). length (queue p) + length (inflight p))"
    by simp
qed

declare drain.simps [simp del]

text \<open>
  The \<open>n\<close> workers start one after the other before any response is handled; then the
  responses are handled until no worker waits.
\<close>

definition preloadMeteoPeriods ::
  "(string \<Rightarrow> response) \<Rightarrow> nat list \<Rightarrow> nat \<Rightarrow> meteo \<Rightarrow> string list \<Rightarrow> meteo" where
  "preloadMeteoPeriods net sched n ms keys =
     drain net sched ((advance ^^ n) \<lparr> queue = keys, inflight = [], poolMeteo = ms \<rparr>)"

section \<open>Ingestion\<close>

text \<open>
  \<^verbatim>\<open>DEFAULTS\<close> and the options of \<^verbatim>\<open>processCSVText\<close>. An option that is absent or not
  a finite number is \<open>NaN\<close>. The timeout is left out: a request that it aborts is a
  request that is \<open>Rejected\<close>. The progress callback is left out too.
\<close>

record config =
  SITE :: "rat \<times> rat"
  CONSERVATIVE_FALLBACK_GMD :: num
  METEO_CONCURRENCY :: rat

record options =
  opt_SITE :: "(rat \<times> rat) option"
  opt_CONSERVATIVE_FALLBACK_GMD :: num
  opt_METEO_CONCURRENCY :: num

definition DEFAULTS :: config where
  "DEFAULTS =
     \<lparr> SITE = (38.17355612872988, - 7.986520046258665),
       CONSERVATIVE_FALLBACK_GMD = Fin (110 / 100),
       METEO_CONCURRENCY = 6 \<rparr>"

text \<open>
  \<^verbatim>\<open>
  const cfg = {
    SITE: opts.SITE || DEFAULTS.SITE,
    CONSERVATIVE_FALLBACK_GMD: Number.isFinite(opts.CONSERVATIVE_FALLBACK_GMD)
      ? opts.CONSERVATIVE_FALLBACK_GMD : DEFAULTS.CONSERVATIVE_FALLBACK_GMD,
    METEO_TIMEOUT_MS: ...,
    METEO_CONCURRENCY: Number.isFinite(opts.METEO_CONCURRENCY)
      ? opts.METEO_CONCURRENCY : DEFAULTS.METEO_CONCURRENCY
  };
  \<close>
\<close>

definition cfgOf :: "options \<Rightarrow> config" where
  "cfgOf opts =
     \<lparr> SITE = (case opt_SITE opts of None \<Rightarrow> SITE DEFAULTS | Some x \<Rightarrow> x),
       CONSERVATIVE_FALLBACK_GMD =
         (if isFinite (opt_CONSERVATIVE_FALLBACK_GMD opts) then opt_CONSERVATIVE_FALLBACK_GMD opts
          else CONSERVATIVE_FALLBACK_GMD DEFAULTS),
       METEO_CONCURRENCY =
         (case opt_METEO_CONCURRENCY opts of Fin c \<Rightarrow> c | NaN \<Rightarrow> METEO_CONCURRENCY DEFAULTS) \<rparr>"

text \<open>
  \<^verbatim>\<open>const n = Math.max(1, Math.min(cfg.METEO_CONCURRENCY, total || 1));\<close>
  and the number of turns of \<^verbatim>\<open>for(let i=0;i<n;i++)\<close>.
\<close>

definition workersOf :: "config \<Rightarrow> nat \<Rightarrow> nat" where
  "workersOf cfg tot =
     nat \<lceil>max 1 (min (METEO_CONCURRENCY cfg) (of_nat (if tot = 0 then 1 else tot)))\<rceil>"

text \<open>The object pushed to \<^verbatim>\<open>rows\<close>.\<close>

record row =
  animal :: string
  sexo :: string
  grupo :: string
  dAnt :: "int option"
  pAnt :: num
  dAtual :: "int option"
  pAtual :: num
  gmdInd :: num

text \<open>\<^verbatim>\<open>x || "\u2014"\<close> on a string.\<close>

definition orDash :: "string \<Rightarrow> string" where
  "orDash x = (if x = [] then dash else x)"

text \<open>
  \<^verbatim>\<open>
  let gmdInd = NaN;
  if(dAnt && dAtual && Number.isFinite(pAnt) && Number.isFinite(pAtual)){
    const d = daysBetweenUTC(dAnt, dAtual);
    if(Number.isFinite(d) && d > 0){
      gmdInd = (pAtual - pAnt) / d;
      ...
    }
  }
  \<close>
\<close>

definition gmdIndOf :: "int option \<Rightarrow> num \<Rightarrow> int option \<Rightarrow> num \<Rightarrow> num" where
  "gmdIndOf da pa dt pt =
     (if da \<noteq> None \<and> dt \<noteq> None \<and> isFinite pa \<and> isFinite pt then
        (let d = daysBetweenUTC da dt
         in if isFinite d \<and> num_gt d (Fin 0) then num_div (num_sub pt pa) d else NaN)
      else NaN)"

text \<open>
  \<^verbatim>\<open>
  const cols = lines[li].split(delim);
  const animal = clean(cols[i_animal]) || "\u2014";
  const sexo   = clean(cols[i_sexo]).toUpperCase() || "\u2014";
  const grupo  = clean(cols[i_grupo]) || "\u2014";
  const dAnt   = parseDatePT(cols[i_dant]);
  const pAnt   = parseNumber(cols[i_pant]);
  const dAtual = parseDatePT(cols[i_datual]);
  const pAtual = parseNumber(cols[i_patual]);
  \<close>
\<close>

definition parseRow :: "columns \<Rightarrow> char \<Rightarrow> string \<Rightarrow> row" where
  "parseRow ix delim line =
     (let cols = split_on delim line;
          da = parseDatePT (nth_opt cols (i_dant ix));
          pa = parseNumber (nth_opt cols (i_pant ix));
          dt = parseDatePT (nth_opt cols (i_datual ix));
          pt = parseNumber (nth_opt cols (i_patual ix))
      in \<lparr> animal = orDash (clean (nth_opt cols (i_animal ix))),
           sexo = orDash (toUpperCase (clean (nth_opt cols (i_sexo ix)))),
           grupo = orDash (clean (nth_opt cols (i_grupo ix))),
           dAnt = da, pAnt = pa, dAtual = dt, pAtual = pt,
           gmdInd = gmdIndOf da pa dt pt \<rparr>)"

text \<open>
  The objects that the source uses as dictionaries (\<^verbatim>\<open>gmdIndSamples\<close>,
  \<^verbatim>\<open>gmdMediaGrupo\<close>, \<^verbatim>\<open>gmdEstimativaGrupo\<close>, \<^verbatim>\<open>groupAgg\<close>) are made by \<^verbatim>\<open>{}\<close> and
  inherit from \<^verbatim>\<open>Object.prototype\<close>. Reading a key that is one of its property names gives
  the inherited value, which is a function (for \<^verbatim>\<open>__proto__\<close>, the prototype object
  itself): a value that is truthy, not \<^verbatim>\<open>null\<close> and not a number. A map of the model holds
  the own properties, and \<open>protoNames\<close> are the inherited names, those of the standard
  \<^verbatim>\<open>Object.prototype\<close> of a realm in which no script has added another.
\<close>

definition protoNames :: "string list" where
  "protoNames =
     [''constructor'', ''hasOwnProperty'', ''isPrototypeOf'', ''propertyIsEnumerable'',
      ''toLocaleString'', ''toString'', ''valueOf'', ''__proto__'',
      ''__defineGetter__'', ''__defineSetter__'', ''__lookupGetter__'', ''__lookupSetter__'']"

datatype error =
    CsvVazio  \<comment> \<open>\<^verbatim>\<open>throw new Error("CSV vazio ou inv\u00e1lido.")\<close>\<close>
  | TypeError  \<comment> \<open>a call of a value that is not a function\<close>

text \<open>
  \<^verbatim>\<open>if(Number.isFinite(gmdInd)){ (gmdIndSamples[grupo] ||= []).push(gmdInd); }\<close>
  For an inherited name the value read is truthy, so nothing is assigned, and it has no
  \<^verbatim>\<open>push\<close>: the call throws a \<^verbatim>\<open>TypeError\<close>, which ends \<^verbatim>\<open>processCSVText\<close>.
\<close>

definition addSample :: "(string \<rightharpoonup> num list) \<Rightarrow> row \<Rightarrow> error + (string \<rightharpoonup> num list)" where
  "addSample samples r =
     (if isFinite (gmdInd r) then
        (if grupo r \<in> set protoNames then Inl TypeError
         else Inr (samples(grupo r \<mapsto>
                     (case samples (grupo r) of None \<Rightarrow> [] | Some arr \<Rightarrow> arr) @ [gmdInd r])))
      else Inr samples)"

fun gmdIndSamplesFrom :: "(string \<rightharpoonup> num list) \<Rightarrow> row list \<Rightarrow> error + (string \<rightharpoonup> num list)" where
  "gmdIndSamplesFrom samples [] = Inr samples"
| "gmdIndSamplesFrom samples (r # rs) =
     (case addSample samples r of
        Inl e \<Rightarrow> Inl e
      | Inr samples' \<Rightarrow> gmdIndSamplesFrom samples' rs)"

definition gmdIndSamples :: "row list \<Rightarrow> error + (string \<rightharpoonup> num list)" where
  "gmdIndSamples rows = gmdIndSamplesFrom Map.empty rows"

text \<open>The rows on which line 344 throws: a sample in a group with an inherited name.\<close>

definition throwsOn :: "row \<Rightarrow> bool" where
  "throwsOn r = (isFinite (gmdInd r) \<and> grupo r \<in> set protoNames)"

text \<open>
  \<^verbatim>\<open>if(dAtual){ periodKeys.add(`${isoDateUTC(dAtual)}|${isoDateUTC(todayUTC)}`); }\<close>
  A \<^verbatim>\<open>Set\<close> keeps each key once, in the order of the first insertions.
\<close>

definition addKey :: "int \<Rightarrow> string list \<Rightarrow> row \<Rightarrow> string list" where
  "addKey todayUTC keys r =
     (if dAtual r \<noteq> None then
        (let k = periodKey (dAtual r) (Some todayUTC) in if k \<in> set keys then keys else keys @ [k])
      else keys)"

definition periodKeys :: "int \<Rightarrow> row list \<Rightarrow> string list" where
  "periodKeys todayUTC rows = foldl (addKey todayUTC) [] rows"

text \<open>\<^verbatim>\<open>arr.reduce((a,b)=>a+b,0) / arr.length\<close>\<close>

definition mean :: "num list \<Rightarrow> num" where
  "mean arr = num_div (foldl num_add (Fin 0) arr) (Fin (of_nat (length arr)))"

text \<open>
  \<^verbatim>\<open>
  for(const r of rows){
    const g = r.grupo || "\u2014";
    if(tbl[g] == null){
      const arr = gmdIndSamples[g] || [];
      tbl[g] = arr.length ? (arr.reduce((a,b)=>a+b,0) / arr.length) : dflt;
    }
  }
  \<close>
  with \<^verbatim>\<open>dflt\<close> being \<^verbatim>\<open>NaN\<close> for \<^verbatim>\<open>gmdMediaGrupo\<close> and
  \<^verbatim>\<open>cfg.CONSERVATIVE_FALLBACK_GMD\<close> for \<^verbatim>\<open>gmdEstimativaGrupo\<close>. For an inherited
  name \<^verbatim>\<open>tbl[g]\<close> is not \<^verbatim>\<open>null\<close> and no entry is made. The loop runs after the loop of
  the samples, so \<^verbatim>\<open>gmdIndSamples\<close> has no entry for an inherited name.
\<close>

definition addGroupMean ::
  "(string \<rightharpoonup> num list) \<Rightarrow> num \<Rightarrow> (string \<rightharpoonup> num) \<Rightarrow> row \<Rightarrow> (string \<rightharpoonup> num)" where
  "addGroupMean samples dflt tbl r =
     (let g = orDash (grupo r)
      in if tbl g = None \<and> g \<notin> set protoNames then
           (let arr = (case samples g of None \<Rightarrow> [] | Some a \<Rightarrow> a)
            in tbl(g \<mapsto> (if arr \<noteq> [] then mean arr else dflt)))
         else tbl)"

definition groupMeans :: "(string \<rightharpoonup> num list) \<Rightarrow> num \<Rightarrow> row list \<Rightarrow> (string \<rightharpoonup> num)" where
  "groupMeans samples dflt rows = foldl (addGroupMean samples dflt) Map.empty rows"

definition gmdMediaGrupo :: "(string \<rightharpoonup> num list) \<Rightarrow> row list \<Rightarrow> (string \<rightharpoonup> num)" where
  "gmdMediaGrupo samples rows = groupMeans samples NaN rows"

definition gmdEstimativaGrupo ::
  "config \<Rightarrow> (string \<rightharpoonup> num list) \<Rightarrow> row list \<Rightarrow> (string \<rightharpoonup> num)" where
  "gmdEstimativaGrupo cfg samples rows = groupMeans samples (CONSERVATIVE_FALLBACK_GMD cfg) rows"

text \<open>
  A text shown to the user. The formatting (\<^verbatim>\<open>toFixed\<close>, \<^verbatim>\<open>fmtDate\<close>) belongs to the
  presentation; the model keeps the value that is formatted.
\<close>

datatype display =
    NoValue  \<comment> \<open>the em dash\<close>
  | Kilograms num  \<comment> \<open>\<^verbatim>\<open>`${x.toFixed(1)} kg`\<close>\<close>
  | DegreesC num  \<comment> \<open>\<^verbatim>\<open>`${x.toFixed(1)} \u00b0C`\<close>\<close>
  | DayText int  \<comment> \<open>\<^verbatim>\<open>fmtDate(d)\<close>\<close>

text \<open>
  An element of \<^verbatim>\<open>animalsOut\<close>. The fields \<^verbatim>\<open>sortKey\<close>, \<^verbatim>\<open>animal\<close>, \<^verbatim>\<open>grupo\<close> and
  \<^verbatim>\<open>sexo\<close> carry the prefix \<open>a_\<close>, since a field name is a constant of the theory.
\<close>

record animalResult =
  a_sortKey :: nat
  a_animal :: string
  a_grupo :: string
  a_sexo :: string
  pesoAtual :: display
  dataAtual :: display
  temp :: display
  fatorClima :: num
  estimado :: display
  conf :: string
  confClass :: string
  estado :: string
  estadoClass :: string
  bucket :: string
  estKg :: num

text \<open>
  A value of \<^verbatim>\<open>groupAgg\<close>, with the fields that the \<^verbatim>\<open>map\<close> before the last sort adds.
  All fields carry the prefix \<open>g_\<close>.
\<close>

record groupRec =
  g_name :: string
  g_n :: nat
  g_m :: nat
  g_f :: nat
  g_sumPesoM :: num
  g_sumPesoF :: num
  g_sumEstM :: num
  g_sumEstF :: num
  g_sumGmdM :: num
  g_sumGmdF :: num
  g_nGmdM :: nat
  g_nGmdF :: nat
  g_sumTemp :: num
  g_nTemp :: nat
  g_ok :: nat
  g_warn :: nat
  g_bad :: nat
  g_avgPesoM :: num
  g_avgPesoF :: num
  g_avgEstM :: num
  g_avgEstF :: num
  g_avgGmdM :: num
  g_avgGmdF :: num
  g_avgTemp :: num
  g_risk :: num
  g_sortKey :: int

text \<open>
  The object that \<^verbatim>\<open>groupAgg[g]\<close> is created with. The derived fields do not exist yet;
  here they are \<open>NaN\<close> and 0 until \<open>finishGroup\<close> sets them.
\<close>

definition emptyGroup :: "string \<Rightarrow> groupRec" where
  "emptyGroup g =
     \<lparr> g_name = g, g_n = 0, g_m = 0, g_f = 0,
       g_sumPesoM = Fin 0, g_sumPesoF = Fin 0,
       g_sumEstM = Fin 0, g_sumEstF = Fin 0,
       g_sumGmdM = Fin 0, g_sumGmdF = Fin 0,
       g_nGmdM = 0, g_nGmdF = 0,
       g_sumTemp = Fin 0, g_nTemp = 0,
       g_ok = 0, g_warn = 0, g_bad = 0,
       g_avgPesoM = NaN, g_avgPesoF = NaN, g_avgEstM = NaN, g_avgEstF = NaN,
       g_avgGmdM = NaN, g_avgGmdF = NaN, g_avgTemp = NaN,
       g_risk = NaN, g_sortKey = 0 \<rparr>"

text \<open>
  \<^verbatim>\<open>groupAgg\<close> is the list of its own entries in the order of insertion, which is the
  order of \<^verbatim>\<open>Object.values\<close> for keys that are not array indices (a group whose name is
  the decimal form of an integer below \<open>2 ^ 32 - 1\<close> comes first in the source: such names
  are outside the model). \<open>upsert g f\<close> creates the entry of \<open>g\<close> when it is missing and then
  applies \<open>f\<close> to it.
\<close>

fun upsert :: "string \<Rightarrow> (groupRec \<Rightarrow> groupRec) \<Rightarrow> (string \<times> groupRec) list \<Rightarrow> (string \<times> groupRec) list" where
  "upsert g f [] = [(g, f (emptyGroup g))]"
| "upsert g f ((k, v) # kvs) = (if k = g then (k, f v) # kvs else (k, v) # upsert g f kvs)"

text \<open>
  \<^verbatim>\<open>const hasAtual = r.dAtual && Number.isFinite(r.pAtual);\<close>
\<close>

definition hasAtual :: "row \<Rightarrow> bool" where
  "hasAtual r = (dAtual r \<noteq> None \<and> isFinite (pAtual r))"

text \<open>The result pushed for a row without \<^verbatim>\<open>hasAtual\<close>.\<close>

definition failedResult :: "row \<Rightarrow> animalResult" where
  "failedResult r =
     \<lparr> a_sortKey = 99,
       a_animal = animal r, a_grupo = grupo r, a_sexo = sexo r,
       pesoAtual = NoValue, dataAtual = NoValue,
       temp = NoValue, fatorClima = NaN,
       estimado = NoValue,
       conf = dash, confClass = ''muted'',
       estado = dash, estadoClass = ''muted'',
       bucket = ''none'',
       estKg = NaN \<rparr>"

text \<open>
  \<^verbatim>\<open>
  const gmdBase = Number.isFinite(r.gmdInd) ? r.gmdInd
    : (gmdEstimativaGrupo[r.grupo] ?? cfg.CONSERVATIVE_FALLBACK_GMD);
  \<close>
  For an inherited name the value read is the inherited function or object, which is not
  \<^verbatim>\<open>null\<close>; the only use of \<^verbatim>\<open>gmdBase\<close> is the product of the next line, where it
  converts to \<^verbatim>\<open>NaN\<close>.
\<close>

definition gmdBase :: "config \<Rightarrow> (string \<rightharpoonup> num) \<Rightarrow> row \<Rightarrow> num" where
  "gmdBase cfg est r =
     (if isFinite (gmdInd r) then gmdInd r
      else (case est (grupo r) of
              Some v \<Rightarrow> v
            | None \<Rightarrow> if grupo r \<in> set protoNames then NaN else CONSERVATIVE_FALLBACK_GMD cfg))"

text \<open>
  \<^verbatim>\<open>
  const gmdFinal = gmdBase * factorSexo(r.sexo) * factorMaturidade(r.pAtual, r.sexo) * fc;
  const estKg = r.pAtual + (gmdFinal * daysSince);
  \<close>
\<close>

definition estKgOf :: "config \<Rightarrow> (string \<rightharpoonup> num) \<Rightarrow> row \<Rightarrow> num \<Rightarrow> num \<Rightarrow> num" where
  "estKgOf cfg est r fc daysSince =
     (let gmdFinal =
            num_mul (num_mul (num_mul (gmdBase cfg est r) (factorSexo (sexo r)))
                       (factorMaturidade (pAtual r) (sexo r))) fc
      in num_add (pAtual r) (num_mul gmdFinal daysSince))"

text \<open>
  The updates of the entry \<^verbatim>\<open>ga\<close> of the group of a row (lines 457 to 478).
\<close>

definition aggRow :: "row \<Rightarrow> num \<Rightarrow> pack \<Rightarrow> string \<Rightarrow> groupRec \<Rightarrow> groupRec" where
  "aggRow r est_kg met bk ga0 =
     (let ga1 = ga0\<lparr> g_n := g_n ga0 + 1 \<rparr>;
          sx = toUpperCase (clean (Some (sexo r)));
          ga2 = (if sx = ''M'' then
                   ga1\<lparr> g_m := g_m ga1 + 1,
                        g_sumPesoM := num_add (g_sumPesoM ga1) (pAtual r),
                        g_sumEstM := (if isFinite est_kg then num_add (g_sumEstM ga1) est_kg
                                      else g_sumEstM ga1) \<rparr>
                 else if sx = ''F'' then
                   ga1\<lparr> g_f := g_f ga1 + 1,
                        g_sumPesoF := num_add (g_sumPesoF ga1) (pAtual r),
                        g_sumEstF := (if isFinite est_kg then num_add (g_sumEstF ga1) est_kg
                                      else g_sumEstF ga1) \<rparr>
                 else ga1);
          ga3 = (if isFinite (tmean met) then
                   ga2\<lparr> g_sumTemp := num_add (g_sumTemp ga2) (tmean met), g_nTemp := g_nTemp ga2 + 1 \<rparr>
                 else ga2)
      in if isFinite (gmdInd r) then
           (let ga4 = (if sx = ''M'' then
                         ga3\<lparr> g_sumGmdM := num_add (g_sumGmdM ga3) (gmdInd r), g_nGmdM := g_nGmdM ga3 + 1 \<rparr>
                       else if sx = ''F'' then
                         ga3\<lparr> g_sumGmdF := num_add (g_sumGmdF ga3) (gmdInd r), g_nGmdF := g_nGmdF ga3 + 1 \<rparr>
                       else ga3)
            in if bk = ''g'' then ga4\<lparr> g_ok := g_ok ga4 + 1 \<rparr>
               else if bk = ''o'' then ga4\<lparr> g_warn := g_warn ga4 + 1 \<rparr>
               else if bk = ''r'' then ga4\<lparr> g_bad := g_bad ga4 + 1 \<rparr>
               else ga4)
         else ga3)"

text \<open>The variables that the main loop of \<^verbatim>\<open>processCSVText\<close> updates.\<close>

record loopState =
  meteoState :: meteo
  animalsAcc :: "animalResult list"
  groupAgg :: "(string \<times> groupRec) list"
  okRows :: nat
  badRows :: nat

text \<open>
  The result pushed for a row with \<^verbatim>\<open>hasAtual\<close> (lines 415 to 442), given the entry
  \<open>met\<close> that \<^verbatim>\<open>getTempMeanForPeriod\<close> returned. The mean of the group is
  \<^verbatim>\<open>gmdMediaGrupo[r.grupo]\<close>, which \<^verbatim>\<open>Number.isFinite\<close> rejects when it is missing or
  inherited.
\<close>

definition viableResult ::
  "config \<Rightarrow> int \<Rightarrow> (string \<rightharpoonup> num) \<Rightarrow> (string \<rightharpoonup> num) \<Rightarrow> row \<Rightarrow> pack \<Rightarrow> animalResult" where
  "viableResult cfg todayUTC est media r met =
     (let daysSince = daysBetweenUTC (dAtual r) (Some todayUTC);
          (cf, cfClass) = confidenceByDays daysSince;
          fc = factor met;
          est_kg = estKgOf cfg est r fc daysSince;
          (es, esClass, esSort, bk) =
            performanceStatus (gmdInd r) (case media (grupo r) of None \<Rightarrow> NaN | Some v \<Rightarrow> v)
      in \<lparr> a_sortKey = esSort,
           a_animal = animal r, a_grupo = grupo r, a_sexo = sexo r,
           pesoAtual = Kilograms (pAtual r),
           dataAtual = (case dAtual r of None \<Rightarrow> NoValue | Some t \<Rightarrow> DayText t),
           temp = (if isFinite (tmean met) then DegreesC (tmean met) else NoValue),
           fatorClima = fc,
           estimado = (if isFinite est_kg then Kilograms est_kg else NoValue),
           conf = cf, confClass = cfClass,
           estado = es, estadoClass = esClass,
           bucket = bk,
           estKg = est_kg \<rparr>)"

text \<open>
  One iteration of \<^verbatim>\<open>for(const r of rows)\<close> at lines 397 to 479. The resolution of the
  weather is awaited and the run does nothing else meanwhile. For an inherited name
  \<^verbatim>\<open>groupAgg[g]\<close> is truthy: no entry is made and the updates of \<^verbatim>\<open>ga\<close> go to the
  inherited function or object, which is not a value of \<^verbatim>\<open>groupAgg\<close>.
\<close>

definition rowStep ::
  "config \<Rightarrow> (string \<Rightarrow> response) \<Rightarrow> int \<Rightarrow> (string \<rightharpoonup> num) \<Rightarrow> (string \<rightharpoonup> num) \<Rightarrow>
   loopState \<Rightarrow> row \<Rightarrow> loopState" where
  "rowStep cfg net todayUTC est media st r =
     (if \<not> hasAtual r then
        st\<lparr> badRows := badRows st + 1, animalsAcc := animalsAcc st @ [failedResult r] \<rparr>
      else
        (let (met, ms) = getTempMeanForPeriod net (meteoState st) (dAtual r) (Some todayUTC);
             res = viableResult cfg todayUTC est media r met
         in \<lparr> meteoState = ms,
              animalsAcc = animalsAcc st @ [res],
              groupAgg =
                (if orDash (grupo r) \<in> set protoNames then groupAgg st
                 else upsert (orDash (grupo r)) (aggRow r (estKg res) met (bucket res)) (groupAgg st)),
              okRows = okRows st + 1,
              badRows = badRows st \<rparr>))"

definition mainLoop ::
  "config \<Rightarrow> (string \<Rightarrow> response) \<Rightarrow> int \<Rightarrow> (string \<rightharpoonup> num) \<Rightarrow> (string \<rightharpoonup> num) \<Rightarrow>
   loopState \<Rightarrow> row list \<Rightarrow> loopState" where
  "mainLoop cfg net todayUTC est media st rows = foldl (rowStep cfg net todayUTC est media) st rows"

text \<open>
  \<^verbatim>\<open>Array.prototype.sort\<close> with a comparison function is a stable sort: \<open>b\<close> comes before
  \<open>a\<close> when \<open>cmp a b > 0\<close>. The model is the insertion sort, which gives the sorted
  order that ECMAScript specifies when the comparison function is consistent.
\<close>

fun insertBy :: "('a \<Rightarrow> 'a \<Rightarrow> rat) \<Rightarrow> 'a \<Rightarrow> 'a list \<Rightarrow> 'a list" where
  "insertBy cmp x [] = [x]"
| "insertBy cmp x (y # ys) = (if cmp x y > 0 then y # insertBy cmp x ys else x # y # ys)"

definition jsSort :: "('a \<Rightarrow> 'a \<Rightarrow> rat) \<Rightarrow> 'a list \<Rightarrow> 'a list" where
  "jsSort cmp xs = foldr (insertBy cmp) xs []"

text \<open>
  \<^verbatim>\<open>
  animalsOut.sort((a,b)=>a.sortKey-b.sortKey
    || a.grupo.localeCompare(b.grupo) || a.animal.localeCompare(b.animal));
  \<close>
  \<^verbatim>\<open>localeCompare\<close> depends on the locale of the host; it is the parameter \<open>lc\<close>.
\<close>

definition cmpAnimal :: "(string \<Rightarrow> string \<Rightarrow> int) \<Rightarrow> animalResult \<Rightarrow> animalResult \<Rightarrow> rat" where
  "cmpAnimal lc a b =
     (if int (a_sortKey a) - int (a_sortKey b) \<noteq> 0 then of_int (int (a_sortKey a) - int (a_sortKey b))
      else if lc (a_grupo a) (a_grupo b) \<noteq> 0 then of_int (lc (a_grupo a) (a_grupo b))
      else of_int (lc (a_animal a) (a_animal b)))"

text \<open>
  \<^verbatim>\<open>
  g.avgPesoM = g.m ? g.sumPesoM/g.m : NaN;
  g.avgPesoF = g.f ? g.sumPesoF/g.f : NaN;
  g.avgEstM  = g.m ? g.sumEstM/g.m : NaN;
  g.avgEstF  = g.f ? g.sumEstF/g.f : NaN;
  g.avgGmdM  = g.nGmdM ? g.sumGmdM/g.nGmdM : NaN;
  g.avgGmdF  = g.nGmdF ? g.sumGmdF/g.nGmdF : NaN;
  g.avgTemp  = g.nTemp ? g.sumTemp/g.nTemp : NaN;
  const totalStatus = g.ok + g.warn + g.bad;
  g.risk = totalStatus ? ((g.warn + g.bad) / totalStatus) : 0;
  g.sortKey = (g.bad*1000) + (g.warn*100) - (g.ok*10);
  \<close>
\<close>

definition avgOf :: "num \<Rightarrow> nat \<Rightarrow> num" where
  "avgOf s k = (if k \<noteq> 0 then num_div s (Fin (of_nat k)) else NaN)"

definition finishGroup :: "groupRec \<Rightarrow> groupRec" where
  "finishGroup g =
     (let totalStatus = g_ok g + g_warn g + g_bad g
      in g\<lparr> g_avgPesoM := avgOf (g_sumPesoM g) (g_m g),
            g_avgPesoF := avgOf (g_sumPesoF g) (g_f g),
            g_avgEstM := avgOf (g_sumEstM g) (g_m g),
            g_avgEstF := avgOf (g_sumEstF g) (g_f g),
            g_avgGmdM := avgOf (g_sumGmdM g) (g_nGmdM g),
            g_avgGmdF := avgOf (g_sumGmdF g) (g_nGmdF g),
            g_avgTemp := avgOf (g_sumTemp g) (g_nTemp g),
            g_risk := (if totalStatus \<noteq> 0
                       then Fin (of_nat (g_warn g + g_bad g) / of_nat totalStatus) else Fin 0),
            g_sortKey := int (g_bad g) * 1000 + int (g_warn g) * 100 - int (g_ok g) * 10 \<rparr>)"

text \<open>
  \<^verbatim>\<open>.sort((a,b)=>b.sortKey-a.sortKey || b.risk-a.risk || a.name.localeCompare(b.name))\<close>
  A difference that is 0 or \<^verbatim>\<open>NaN\<close> is falsy and passes to the next operand.
\<close>

definition cmpGroup :: "(string \<Rightarrow> string \<Rightarrow> int) \<Rightarrow> groupRec \<Rightarrow> groupRec \<Rightarrow> rat" where
  "cmpGroup lc a b =
     (if g_sortKey b - g_sortKey a \<noteq> 0 then of_int (g_sortKey b - g_sortKey a)
      else (case num_sub (g_risk b) (g_risk a) of
              Fin d \<Rightarrow> if d \<noteq> 0 then d else of_int (lc (g_name a) (g_name b))
            | NaN \<Rightarrow> of_int (lc (g_name a) (g_name b))))"

text \<open>\<^verbatim>\<open>Object.values(groupAgg).map(...).sort(...)\<close>\<close>

definition groupsOutOf :: "(string \<Rightarrow> string \<Rightarrow> int) \<Rightarrow> (string \<times> groupRec) list \<Rightarrow> groupRec list" where
  "groupsOutOf lc agg = jsSort (cmpGroup lc) (map (\<lambda>(k, g). finishGroup g) agg)"

text \<open>
  The state that \<^verbatim>\<open>processCSVText\<close> returns. The version number, the time stamp
  \<^verbatim>\<open>generated_at\<close> and the default targets do not depend on the input and are left out.
\<close>

record csvState =
  st_config :: config
  st_delimiter :: char
  st_lines :: nat
  st_processed_ok :: nat
  st_processed_fail :: nat
  st_todayUTC :: int
  st_animalsOut :: "animalResult list"
  st_groupsOut :: "groupRec list"
  st_groupAgg :: "(string \<times> groupRec) list"
  st_gmdEstimativaGrupo :: "string \<rightharpoonup> num"
  st_gmdMediaGrupo :: "string \<rightharpoonup> num"

text \<open>
  The rows of a text: \<^verbatim>\<open>for(let li=1; li<lines.length; li++)\<close> over the lines after the
  header.
\<close>

definition rowsOf :: "string \<Rightarrow> row list" where
  "rowsOf csvText =
     (let delim = detectDelimiter csvText;
          lines = csvLines csvText;
          ix = resolveColumns (headerOf delim (hd lines))
      in map (parseRow ix delim) (tl lines))"

text \<open>
  \<^verbatim>\<open>processCSVText(csvText, opts)\<close>. Its environment is explicit: \<open>lc\<close> is
  \<^verbatim>\<open>localeCompare\<close>, \<open>net\<close> the network, \<open>sched\<close> the order in which the responses of the
  preload are handled, \<open>cache0\<close> the cache that \<^verbatim>\<open>loadMeteoCache\<close> reads, and \<open>todayUTC\<close>
  the time value of midnight UTC of the local calendar day. The result holds the state,
  the cache that \<^verbatim>\<open>saveMeteoCache\<close> writes after the preload, and the cache and the
  requests at the end of the run.
\<close>

record csvResult =
  state :: csvState
  savedCache :: "string \<rightharpoonup> pack"
  finalMeteo :: meteo

text \<open>
  The preload (lines 363 to 369) for the rows.
\<close>

definition preloaded ::
  "(string \<Rightarrow> response) \<Rightarrow> nat list \<Rightarrow> (string \<rightharpoonup> pack) \<Rightarrow> int \<Rightarrow> config \<Rightarrow> row list \<Rightarrow> meteo" where
  "preloaded net sched cache0 todayUTC cfg rows =
     (let keys = periodKeys todayUTC rows
      in preloadMeteoPeriods net sched (workersOf cfg (length keys))
           \<lparr> cache = cache0, requests = [] \<rparr> keys)"

text \<open>
  \<open>runLoop\<close> is the main loop (lines 393 to 479) over the rows \<open>rs\<close>, with the two
  tables of the groups made from the samples and all the rows, and starting from the
  cache \<open>pre\<close>; the source runs it over all the rows and from the preloaded cache.
\<close>

definition runLoop ::
  "(string \<Rightarrow> response) \<Rightarrow> meteo \<Rightarrow> int \<Rightarrow> config \<Rightarrow> (string \<rightharpoonup> num list) \<Rightarrow> row list \<Rightarrow>
   row list \<Rightarrow> loopState" where
  "runLoop net pre todayUTC cfg samples rows rs =
     mainLoop cfg net todayUTC (gmdEstimativaGrupo cfg samples rows) (gmdMediaGrupo samples rows)
       \<lparr> meteoState = pre, animalsAcc = [], groupAgg = [], okRows = 0, badRows = 0 \<rparr>
       rs"

text \<open>
  The run after the loop of the lines (lines 360 to 511), for the delimiter, the
  number of lines, the rows and the samples that the loop of the lines has made.
\<close>

definition finishRun ::
  "(string \<Rightarrow> string \<Rightarrow> int) \<Rightarrow> (string \<Rightarrow> response) \<Rightarrow> nat list \<Rightarrow> (string \<rightharpoonup> pack) \<Rightarrow> int \<Rightarrow>
   config \<Rightarrow> char \<Rightarrow> nat \<Rightarrow> row list \<Rightarrow> (string \<rightharpoonup> num list) \<Rightarrow> csvResult" where
  "finishRun lc net sched cache0 todayUTC cfg delim n rows samples =
     (let pre = preloaded net sched cache0 todayUTC cfg rows;
          fin = runLoop net pre todayUTC cfg samples rows rows
      in \<lparr> state =
             \<lparr> st_config = cfg,
               st_delimiter = delim,
               st_lines = n - 1,
               st_processed_ok = okRows fin,
               st_processed_fail = badRows fin,
               st_todayUTC = todayUTC,
               st_animalsOut = jsSort (cmpAnimal lc) (animalsAcc fin),
               st_groupsOut = groupsOutOf lc (groupAgg fin),
               st_groupAgg = map (\<lambda>(k, g). (k, finishGroup g)) (groupAgg fin),
               st_gmdEstimativaGrupo = gmdEstimativaGrupo cfg samples rows,
               st_gmdMediaGrupo = gmdMediaGrupo samples rows \<rparr>,
           savedCache = cache pre,
           finalMeteo = meteoState fin \<rparr>)"

definition processCSVText ::
  "(string \<Rightarrow> string \<Rightarrow> int) \<Rightarrow> (string \<Rightarrow> response) \<Rightarrow> nat list \<Rightarrow> (string \<rightharpoonup> pack) \<Rightarrow> int \<Rightarrow>
   options \<Rightarrow> string \<Rightarrow> error + csvResult" where
  "processCSVText lc net sched cache0 todayUTC opts csvText =
     (let cfg = cfgOf opts;
          delim = detectDelimiter csvText;
          lines = csvLines csvText
      in if length lines < 2 then Inl CsvVazio
         else
           (let rows = rowsOf csvText
            in case gmdIndSamples rows of
                 Inl e \<Rightarrow> Inl e
               | Inr samples \<Rightarrow>
                   Inr (finishRun lc net sched cache0 todayUTC cfg delim (length lines) rows samples)))"

text \<open>The animals of a result, and nothing when the run failed.\<close>

definition animalsOutOf :: "error + csvResult \<Rightarrow> animalResult list" where
  "animalsOutOf x = (case x of Inl e \<Rightarrow> [] | Inr res \<Rightarrow> st_animalsOut (state res))"

section \<open>Forecast\<close>

text \<open>
  \<^verbatim>\<open>
  function pickGmdUsed(realGmd, fallback){
    return Number.isFinite(realGmd) && realGmd>0 ? realGmd : fallback;
  }
  \<close>
\<close>

definition pickGmdUsed :: "num \<Rightarrow> num \<Rightarrow> num" where
  "pickGmdUsed realGmd fallback =
     (if isFinite realGmd \<and> num_gt realGmd (Fin 0) then realGmd else fallback)"

text \<open>
  \<^verbatim>\<open>
  function classifyReady(pesoEst, alvo){
    if(!Number.isFinite(pesoEst) || !Number.isFinite(alvo)) return ["\u2014","muted"];
    if(pesoEst >= alvo) return ["Pronto \u2705","ok"];
    if(pesoEst >= alvo - 20) return ["Quase l\u00e1 \u{1F7E1}","warn"];
    return ["Em engorda","muted"];
  }
  \<close>
\<close>

definition str_pronto :: string where
  \<comment> \<open>\<^verbatim>\<open>Pronto \<close>, then the check mark U+2705\<close>
  "str_pronto = ''Pronto '' @ [CHR 0xE2, CHR 0x9C, CHR 0x85]"

definition str_quase_la :: string where
  \<comment> \<open>\<^verbatim>\<open>Quase l\<close>, a with acute accent, a space, the yellow circle U+1F7E1\<close>
  "str_quase_la = ''Quase l'' @ [CHR 0xC3, CHR 0xA1] @ '' '' @ [CHR 0xF0, CHR 0x9F, CHR 0x9F, CHR 0xA1]"

definition classifyReady :: "num \<Rightarrow> num \<Rightarrow> string \<times> string" where
  "classifyReady pesoEst alvo =
     (if \<not> isFinite pesoEst \<or> \<not> isFinite alvo then (dash, ''muted'')
      else if num_ge pesoEst alvo then (str_pronto, ''ok'')
      else if num_ge pesoEst (num_sub alvo (Fin 20)) then (str_quase_la, ''warn'')
      else (''Em engorda'', ''muted''))"

text \<open>
  \<^verbatim>\<open>
  function calcDaysToTarget(pesoEst, alvo, gmd){
    if(!Number.isFinite(pesoEst) || !Number.isFinite(alvo) || !Number.isFinite(gmd) || gmd<=0)
      return NaN;
    if(pesoEst >= alvo) return 0;
    return (alvo - pesoEst) / gmd;
  }
  \<close>
\<close>

definition calcDaysToTarget :: "num \<Rightarrow> num \<Rightarrow> num \<Rightarrow> num" where
  "calcDaysToTarget pesoEst alvo gmd =
     (if \<not> isFinite pesoEst \<or> \<not> isFinite alvo \<or> \<not> isFinite gmd \<or> num_le gmd (Fin 0) then NaN
      else if num_ge pesoEst alvo then Fin 0
      else num_div (num_sub alvo pesoEst) gmd)"

text \<open>
  The literal \<^verbatim>\<open>Infinity\<close> that \<^verbatim>\<open>computeForecast\<close> puts in place of a number that is not
  finite.
\<close>

datatype xnum = XFin rat | Infinity

definition orInfinity :: "num \<Rightarrow> xnum" where
  "orInfinity x = (case x of Fin r \<Rightarrow> XFin r | NaN \<Rightarrow> Infinity)"

fun xmin :: "xnum \<Rightarrow> xnum \<Rightarrow> xnum" where
  "xmin (XFin a) (XFin b) = XFin (min a b)"
| "xmin (XFin a) Infinity = XFin a"
| "xmin Infinity b = b"

text \<open>
  \<^verbatim>\<open>
  const minDays = (() => {
    const a = Number.isFinite(daysM) ? daysM : Infinity;
    const b = Number.isFinite(daysF) ? daysF : Infinity;
    const m = Math.min(a,b);
    return (m === Infinity) ? NaN : m;
  })();
  \<close>
\<close>

definition minDaysOf :: "num \<Rightarrow> num \<Rightarrow> num" where
  "minDaysOf dM dF =
     (case xmin (orInfinity dM) (orInfinity dF) of Infinity \<Rightarrow> NaN | XFin r \<Rightarrow> Fin r)"

record targets =
  targetM :: num
  targetF :: num

text \<open>An element of the result of \<^verbatim>\<open>computeForecast\<close>; the prefix \<open>f_\<close> avoids clashes.\<close>

record forecastRow =
  f_name :: string
  f_m :: nat
  f_f :: nat
  pM :: num
  pF :: num
  realM :: num
  realF :: num
  gmdUsedM :: num
  gmdUsedF :: num
  daysM :: num
  daysF :: num
  dateM :: display
  dateF :: display
  minDays :: num
  estadoTexto :: string
  f_estadoClass :: string

text \<open>
  \<^verbatim>\<open>Number.isFinite(days) ? fmtDate(addDaysUTC(todayUTC, Math.ceil(days))) : "\u2014"\<close>
\<close>

definition targetDate :: "int \<Rightarrow> num \<Rightarrow> display" where
  "targetDate todayUTC days =
     (case days of Fin d \<Rightarrow> DayText (todayUTC + \<lceil>d\<rceil> * msPerDay) | NaN \<Rightarrow> NoValue)"

text \<open>
  The combined label of a group (lines 576 to 589).
\<close>

definition estadoOf :: "nat \<Rightarrow> nat \<Rightarrow> string \<times> string \<Rightarrow> string \<times> string \<Rightarrow> string \<times> string" where
  "estadoOf m_count f_count sM sF =
     (if m_count > 0 \<and> f_count > 0 then
        (if snd sM = ''ok'' \<and> snd sF = ''ok'' then (''M e F prontos '' @ [CHR 0xE2, CHR 0x9C, CHR 0x85], ''ok'')
         else if snd sM = ''ok'' \<or> snd sF = ''ok'' then (''Parcialmente pronto (misto)'', ''warn'')
         else if snd sM = ''warn'' \<or> snd sF = ''warn''
           then (''Quase l'' @ [CHR 0xC3, CHR 0xA1] @ '' (misto)'', ''warn'')
         else (''Em engorda (misto)'', ''muted''))
      else if m_count > 0 then sM
      else if f_count > 0 then sF
      else (dash, ''muted''))"

text \<open>The function mapped over \<^verbatim>\<open>st.groupsOut\<close> (lines 550 to 603).\<close>

definition forecastOf :: "int \<Rightarrow> num \<Rightarrow> num \<Rightarrow> num \<Rightarrow> groupRec \<Rightarrow> forecastRow" where
  "forecastOf todayUTC tM tF fallback g =
     (let p_m = g_avgEstM g; p_f = g_avgEstF g;
          real_m = g_avgGmdM g; real_f = g_avgGmdF g;
          used_m = pickGmdUsed real_m fallback;
          used_f = pickGmdUsed real_f fallback;
          days_m = calcDaysToTarget p_m tM used_m;
          days_f = calcDaysToTarget p_f tF used_f;
          e = estadoOf (g_m g) (g_f g) (classifyReady p_m tM) (classifyReady p_f tF)
      in \<lparr> f_name = g_name g, f_m = g_m g, f_f = g_f g,
           pM = p_m, pF = p_f, realM = real_m, realF = real_f,
           gmdUsedM = used_m, gmdUsedF = used_f,
           daysM = days_m, daysF = days_f,
           dateM = targetDate todayUTC days_m, dateF = targetDate todayUTC days_f,
           minDays = minDaysOf days_m days_f,
           estadoTexto = fst e, f_estadoClass = snd e \<rparr>)"

text \<open>
  \<^verbatim>\<open>
  rows.sort((a,b)=>{
    const aReady = (Number.isFinite(a.minDays) && a.minDays===0) ? 0 : 1;
    const bReady = (Number.isFinite(b.minDays) && b.minDays===0) ? 0 : 1;
    if(aReady !== bReady) return aReady - bReady;
    const am = Number.isFinite(a.minDays) ? a.minDays : Infinity;
    const bm = Number.isFinite(b.minDays) ? b.minDays : Infinity;
    if(am !== bm) return am - bm;
    return a.name.localeCompare(b.name);
  });
  \<close>
  The sort only tests whether the result is positive, so the difference with an infinite
  operand is given by its sign.
\<close>

definition readyRank :: "forecastRow \<Rightarrow> int" where
  "readyRank a = (if isFinite (minDays a) \<and> minDays a = Fin 0 then 0 else 1)"

fun xdiff :: "xnum \<Rightarrow> xnum \<Rightarrow> rat" where
  "xdiff (XFin a) (XFin b) = a - b"
| "xdiff (XFin a) Infinity = - 1"
| "xdiff Infinity (XFin b) = 1"
| "xdiff Infinity Infinity = 0"

definition cmpForecast :: "(string \<Rightarrow> string \<Rightarrow> int) \<Rightarrow> forecastRow \<Rightarrow> forecastRow \<Rightarrow> rat" where
  "cmpForecast lc a b =
     (if readyRank a \<noteq> readyRank b then of_int (readyRank a - readyRank b)
      else (let am = orInfinity (minDays a); bm = orInfinity (minDays b)
            in if am \<noteq> bm then xdiff am bm else of_int (lc (f_name a) (f_name b))))"

text \<open>
  \<^verbatim>\<open>computeForecast(state, targets)\<close>. The state gives \<^verbatim>\<open>todayUTC\<close>, the fallback rate
  and \<^verbatim>\<open>groupsOut\<close>; a missing state is \<open>None\<close>, and then the date is the clock \<open>now\<close>.
\<close>

definition computeForecast ::
  "(string \<Rightarrow> string \<Rightarrow> int) \<Rightarrow> int \<Rightarrow> csvState option \<Rightarrow> targets \<Rightarrow> forecastRow list" where
  "computeForecast lc now st tg =
     (let todayUTC = (case st of None \<Rightarrow> now | Some s \<Rightarrow> st_todayUTC s);
          tM = (if isFinite (targetM tg) then targetM tg else Fin 620);
          tF = (if isFinite (targetF tg) then targetF tg else Fin 520);
          cfgFallback = (case st of None \<Rightarrow> NaN | Some s \<Rightarrow> CONSERVATIVE_FALLBACK_GMD (st_config s));
          fallback = (if isFinite cfgFallback then cfgFallback else CONSERVATIVE_FALLBACK_GMD DEFAULTS);
          groups = (case st of None \<Rightarrow> [] | Some s \<Rightarrow> st_groupsOut s)
      in jsSort (cmpForecast lc) (map (forecastOf todayUTC tM tF fallback) groups))"

section \<open>The module\<close>









section \<open>The forms of the specification\<close>

text \<open>
  The shapes of a date in the words of the specification, to be compared with what
  \<open>parseDatePT\<close> accepts. \<open>formYMD\<close> is \<^verbatim>\<open>YYYY-MM-DD\<close>; \<open>formDMY\<close> is day, month and
  year with two separators, each a hyphen or a slash; \<open>formDMYsame\<close> asks in addition that
  the two separators are the same character (\<^verbatim>\<open>DD-MM-YYYY\<close> or \<^verbatim>\<open>DD/MM/YYYY\<close>).
\<close>

definition formYMD :: "string \<Rightarrow> bool" where
  "formYMD s =
     (case s of
        [y1, y2, y3, y4, h1, m1, m2, h2, d1, d2] \<Rightarrow>
          isDigit y1 \<and> isDigit y2 \<and> isDigit y3 \<and> isDigit y4 \<and> h1 = CHR ''-'' \<and>
          isDigit m1 \<and> isDigit m2 \<and> h2 = CHR ''-'' \<and> isDigit d1 \<and> isDigit d2
      | _ \<Rightarrow> False)"

definition formDMY :: "string \<Rightarrow> bool" where
  "formDMY s =
     (case s of
        [d1, d2, s1, m1, m2, s2, y1, y2, y3, y4] \<Rightarrow>
          isDigit d1 \<and> isDigit d2 \<and> isSep s1 \<and> isDigit m1 \<and> isDigit m2 \<and> isSep s2 \<and>
          isDigit y1 \<and> isDigit y2 \<and> isDigit y3 \<and> isDigit y4
      | _ \<Rightarrow> False)"

definition formDMYsame :: "string \<Rightarrow> bool" where
  "formDMYsame s = (formDMY s \<and> s ! 2 = s ! 5)"

text \<open>
  The year, month and day that a string of one of these forms writes, and the year that a
  written year stands for (\<^verbatim>\<open>Date.UTC\<close> reads the years 0 to 99 as 1900 to 1999).
\<close>

definition written :: "string \<Rightarrow> int \<times> int \<times> int" where
  "written s =
     (if formYMD s then (digitsVal (take 4 s), digitsVal (take 2 (drop 5 s)), digitsVal (drop 8 s))
      else (digitsVal (drop 6 s), digitsVal (take 2 (drop 3 s)), digitsVal (take 2 s)))"

definition fullYear :: "int \<Rightarrow> int" where
  "fullYear y = (if 0 \<le> y \<and> y \<le> 99 then 1900 + y else y)"

text \<open>
  The historical samples of a group: the finite growth-rate samples of its rows, in the
  order of the rows.
\<close>

definition groupSamples :: "row list \<Rightarrow> string \<Rightarrow> num list" where
  "groupSamples rows g = map gmdInd (filter (\<lambda>x. grupo x = g \<and> isFinite (gmdInd x)) rows)"

section \<open>The orders of the specification\<close>

text \<open>
  What the specification asks of \<^verbatim>\<open>localeCompare\<close> as an order of names: of two names,
  one is not after the other, and "not after" is transitive.
\<close>

definition consistentCompare :: "(string \<Rightarrow> string \<Rightarrow> int) \<Rightarrow> bool" where
  "consistentCompare lc =
     ((\<forall>x y. 0 < lc x y \<longrightarrow> lc y x \<le> 0) \<and>
      (\<forall>x y z. lc x y \<le> 0 \<and> lc y z \<le> 0 \<longrightarrow> lc x z \<le> 0))"

text \<open>
  The ranking of the groups in the words of the specification: \<open>a\<close> may stand before
  \<open>b\<close> when its composite key is greater, or the keys are equal and its risk is greater,
  or both are equal and its name is not after the name of \<open>b\<close>.
\<close>

definition groupOrder :: "(string \<Rightarrow> string \<Rightarrow> int) \<Rightarrow> groupRec \<Rightarrow> groupRec \<Rightarrow> bool" where
  "groupOrder lc a b =
     (g_sortKey a > g_sortKey b \<or>
      (g_sortKey a = g_sortKey b \<and>
        (num_gt (g_risk a) (g_risk b) \<or>
         (g_risk a = g_risk b \<and> lc (g_name a) (g_name b) \<le> 0))))"

text \<open>
  The order of the forecast in the words of the specification. A sex of a group is ready
  when its days to the target are 0. \<open>bothReady\<close> is the reading of the specification
  (both sexes at or above their targets); \<open>someReady\<close> asks it of one sex at least.
  \<open>leastDays\<close> is the minimum of the days of the two sexes, undefined days being infinite.
\<close>

definition someReady :: "forecastRow \<Rightarrow> bool" where
  "someReady r = (daysM r = Fin 0 \<or> daysF r = Fin 0)"

definition bothReady :: "forecastRow \<Rightarrow> bool" where
  "bothReady r = (daysM r = Fin 0 \<and> daysF r = Fin 0)"

definition leastDays :: "forecastRow \<Rightarrow> xnum" where
  "leastDays r = xmin (orInfinity (daysM r)) (orInfinity (daysF r))"

fun xless :: "xnum \<Rightarrow> xnum \<Rightarrow> bool" where
  "xless (XFin a) (XFin b) = (a < b)"
| "xless (XFin a) Infinity = True"
| "xless Infinity b = False"

definition forecastOrder :: "(string \<Rightarrow> string \<Rightarrow> int) \<Rightarrow> forecastRow \<Rightarrow> forecastRow \<Rightarrow> bool" where
  "forecastOrder lc a b =
     ((someReady a \<and> \<not> someReady b) \<or>
      (someReady a = someReady b \<and>
        (xless (leastDays a) (leastDays b) \<or>
         (leastDays a = leastDays b \<and> lc (f_name a) (f_name b) \<le> 0))))"

text \<open>
  The classified rows of a group, in the words of the specification: the rows with a
  current weighing and a sample whose status, against the mean of the group, falls in the
  bucket \<open>b\<close> (\<^verbatim>\<open>g\<close> for normal, \<^verbatim>\<open>o\<close> for to watch, \<^verbatim>\<open>r\<close> for delayed).
\<close>

definition bucketOf :: "(string \<rightharpoonup> num) \<Rightarrow> row \<Rightarrow> string" where
  "bucketOf media r =
     snd (snd (snd (performanceStatus (gmdInd r) (case media (grupo r) of None \<Rightarrow> NaN | Some v \<Rightarrow> v))))"

definition classifiedCount :: "(string \<rightharpoonup> num) \<Rightarrow> string \<Rightarrow> string \<Rightarrow> row list \<Rightarrow> nat" where
  "classifiedCount media k b rows =
     length (filter (\<lambda>r. hasAtual r \<and> orDash (grupo r) = k \<and> isFinite (gmdInd r) \<and> bucketOf media r = b) rows)"

section \<open>Example inputs\<close>

text \<open>
  A comparison of strings by their bytes, in place of \<^verbatim>\<open>localeCompare\<close> in the examples:
  on the names used there (capital letters and digits) the two agree.
\<close>

fun byteCompare :: "string \<Rightarrow> string \<Rightarrow> int" where
  "byteCompare [] [] = 0"
| "byteCompare [] (y # ys) = - 1"
| "byteCompare (x # xs) [] = 1"
| "byteCompare (x # xs) (y # ys) =
     (if (of_char x :: nat) < of_char y then - 1
      else if (of_char y :: nat) < of_char x then 1
      else byteCompare xs ys)"

text \<open>
  A text of 17 rows in four groups, all weighed last on 2024-03-01 and, where there is a
  previous weighing, 64 days before. Group \<^verbatim>\<open>G4\<close> and group \<^verbatim>\<open>G3\<close> have one animal each
  and no sample. In group \<^verbatim>\<open>G2\<close> ten animals gained 130 kg and one gained 108 kg, so the
  mean of its samples is 2. In group \<^verbatim>\<open>G1\<close> A1 lost 64 kg and A2 gained 192 kg, so the
  mean of its samples is 1; A3 has no current date and A4 has no previous weighing.
\<close>

definition csvExample :: string where
  "csvExample =
     ''animal_id;sexo;grupo;data_peso_anterior;peso_anterior;data_peso_atual;peso_atual\<newline>'' @
     ''A6;M;G4;;;01-03-2024;500\<newline>'' @
     ''A5;M;G3;;;01-03-2024;300\<newline>'' @
     ''B1;M;G2;28-12-2023;300;01-03-2024;430\<newline>'' @
     ''B2;M;G2;28-12-2023;300;01-03-2024;430\<newline>'' @
     ''B3;M;G2;28-12-2023;300;01-03-2024;430\<newline>'' @
     ''B4;M;G2;28-12-2023;300;01-03-2024;430\<newline>'' @
     ''B5;M;G2;28-12-2023;300;01-03-2024;430\<newline>'' @
     ''B6;M;G2;28-12-2023;300;01-03-2024;430\<newline>'' @
     ''B7;M;G2;28-12-2023;300;01-03-2024;430\<newline>'' @
     ''B8;M;G2;28-12-2023;300;01-03-2024;430\<newline>'' @
     ''B9;M;G2;28-12-2023;300;01-03-2024;430\<newline>'' @
     ''B10;M;G2;28-12-2023;300;01-03-2024;430\<newline>'' @
     ''B11;M;G2;28-12-2023;300;01-03-2024;408\<newline>'' @
     ''A1;M;G1;28-12-2023;464;01-03-2024;400\<newline>'' @
     ''A2;M;G1;28-12-2023;300;01-03-2024;492\<newline>'' @
     ''A3;F;G1;;;x;500\<newline>'' @
     ''A4;M;G1;;;01-03-2024;500''"

text \<open>
  A text of two rows whose current dates are in the years 100 and 200.
\<close>

definition csvOldDates :: string where
  "csvOldDates =
     ''animal_id;sexo;grupo;data_peso_anterior;peso_anterior;data_peso_atual;peso_atual\<newline>'' @
     ''C1;M;G1;;;01-01-0100;500\<newline>'' @
     ''C2;M;G1;;;01-01-0200;500''"

definition noOptions :: options where
  "noOptions =
     \<lparr> opt_SITE = None, opt_CONSERVATIVE_FALLBACK_GMD = NaN, opt_METEO_CONCURRENCY = NaN \<rparr>"

text \<open>A network that answers every request with the daily means 18 and 19.\<close>

definition mildNet :: "string \<Rightarrow> response" where
  "mildNet key = Daily [Some 18, Some 19]"

text \<open>The time value of 2024-03-11.\<close>

definition exampleToday :: int where
  "exampleToday = 1710115200000"

text \<open>
  A state with two groups that have a male and a female each and no history: in group A
  the projected mean weights are 700 kg for the males and 400 kg for the females, in
  group Z they are 700 kg and 600 kg. The targets are the defaults, 620 kg and 520 kg.
\<close>

definition forecastGroup :: "string \<Rightarrow> num \<Rightarrow> num \<Rightarrow> groupRec" where
  "forecastGroup nm estM estF =
     (emptyGroup nm)\<lparr> g_n := 2, g_m := 1, g_f := 1, g_avgEstM := estM, g_avgEstF := estF,
                       g_risk := Fin 0 \<rparr>"

definition forecastState :: csvState where
  "forecastState =
     \<lparr> st_config = DEFAULTS,
       st_delimiter = CHR '';'',
       st_lines = 4,
       st_processed_ok = 4,
       st_processed_fail = 0,
       st_todayUTC = exampleToday,
       st_animalsOut = [],
       st_groupsOut = [forecastGroup ''A'' (Fin 700) (Fin 400), forecastGroup ''Z'' (Fin 700) (Fin 600)],
       st_groupAgg = [],
       st_gmdEstimativaGrupo = Map.empty,
       st_gmdMediaGrupo = Map.empty \<rparr>"

definition noTargets :: targets where
  "noTargets = \<lparr> targetM = NaN, targetF = NaN \<rparr>"

section \<open>Properties\<close>

subsection \<open>Fallback column positions\<close>

lemma indexOf_ge_minus1: "indexOf xs x \<ge> -1"
  by (induction xs) (auto simp: Let_def)

lemma indexOf_absent: "x \<notin> set xs \<Longrightarrow> indexOf xs x = -1"
  by (induction xs) (auto simp: Let_def)

lemma indexOf_present: "x \<in> set xs \<Longrightarrow> 0 \<le> indexOf xs x \<and> nat (indexOf xs x) < length xs \<and> xs ! nat (indexOf xs x) = x"
proof (induction xs)
  case Nil
  then show ?case by simp
next
  case (Cons y ys)
  show ?case
  proof (cases "y = x")
    case True
    then show ?thesis by simp
  next
    case False
    with Cons.prems have "x \<in> set ys" by simp
    from Cons.IH [OF this] False show ?thesis
      by (simp add: Let_def nat_add_distrib)
  qed
qed

lemma idxOr_absent: "name \<notin> set header \<Longrightarrow> idxOr header name k = k"
  by (simp add: idxOr_def indexOf_absent)

lemma idxOr_present:
  "name \<in> set header \<Longrightarrow> idxOr header name k < length header \<and> header ! idxOr header name k = name"
  using indexOf_present [of name header] by (simp add: idxOr_def)

text \<open>
  Claim C4, as amended. A column whose header name is absent from the header line takes a
  fixed position: animal id 0, sex 2, group 3, previous date 4, previous weight 5,
  current date 6, current weight 7. The order is the claimed one, but position 1 is
  skipped, so the seven positions are not 0 to 6.
\<close>

theorem fallback_columns:
  "(''animal_id'' \<notin> set header \<longrightarrow> i_animal (resolveColumns header) = 0) \<and>
   (''sexo'' \<notin> set header \<longrightarrow> i_sexo (resolveColumns header) = 2) \<and>
   (''grupo'' \<notin> set header \<longrightarrow> i_grupo (resolveColumns header) = 3) \<and>
   (''data_peso_anterior'' \<notin> set header \<longrightarrow> i_dant (resolveColumns header) = 4) \<and>
   (''peso_anterior'' \<notin> set header \<longrightarrow> i_pant (resolveColumns header) = 5) \<and>
   (''data_peso_atual'' \<notin> set header \<longrightarrow> i_datual (resolveColumns header) = 6) \<and>
   (''peso_atual'' \<notin> set header \<longrightarrow> i_patual (resolveColumns header) = 7)"
  by (simp add: resolveColumns_def idxOr_absent)

theorem fallback_columns_witness:
  "''animal_id'' \<notin> set [''id'', ''x''] \<and> ''sexo'' \<notin> set [''id'', ''x''] \<and>
   ''grupo'' \<notin> set [''id'', ''x''] \<and> ''data_peso_anterior'' \<notin> set [''id'', ''x''] \<and>
   ''peso_anterior'' \<notin> set [''id'', ''x''] \<and> ''data_peso_atual'' \<notin> set [''id'', ''x''] \<and>
   ''peso_atual'' \<notin> set [''id'', ''x''] \<and>
   resolveColumns [''id'', ''x''] =
     \<lparr> i_animal = 0, i_sexo = 2, i_grupo = 3, i_dant = 4, i_pant = 5, i_datual = 6,
       i_patual = 7 \<rparr>"
  using fallback_columns [of "[''id'', ''x'']"] by (simp add: resolveColumns_def)

text \<open>
  Claim C4 as stated fails: on the header line \<^verbatim>\<open>id;x\<close>, which has none of the seven
  names, the positions are not 0 to 6.
\<close>

theorem fallback_columns_not_consecutive:
  "resolveColumns (headerOf (CHR '';'') ''id;x'') \<noteq>
     \<lparr> i_animal = 0, i_sexo = 1, i_grupo = 2, i_dant = 3, i_pant = 4, i_datual = 5,
       i_patual = 6 \<rparr>"
  by code_simp

subsection \<open>The public interface\<close>






subsection \<open>Date parsing\<close>

lemma len10: "length s = 10 \<Longrightarrow> \<exists>a0 a1 a2 a3 a4 a5 a6 a7 a8 a9. s = [a0,a1,a2,a3,a4,a5,a6,a7,a8,a9]"
  by (auto simp: length_Suc_conv eval_nat_numeral)

lemma formYMD_len: "formYMD s \<Longrightarrow> length s = 10"
  by (simp add: formYMD_def split: list.splits)

lemma formDMY_len: "formDMY s \<Longrightarrow> length s = 10"
  by (simp add: formDMY_def split: list.splits)

lemma matchYMD_form: "matchYMD s \<noteq> None \<longleftrightarrow> formYMD s"
proof (cases "length s = 10")
  case True
  from len10 [OF True] obtain a0 a1 a2 a3 a4 a5 a6 a7 a8 a9
    where "s = [a0,a1,a2,a3,a4,a5,a6,a7,a8,a9]" by (elim exE)
  then show ?thesis by (simp add: matchYMD_def formYMD_def)
next
  case False
  then show ?thesis
    using formYMD_len [of s] by (auto simp: matchYMD_def)
qed

lemma matchDMY_form: "matchDMY s \<noteq> None \<longleftrightarrow> formDMY s"
proof (cases "length s = 10")
  case True
  from len10 [OF True] obtain a0 a1 a2 a3 a4 a5 a6 a7 a8 a9
    where "s = [a0,a1,a2,a3,a4,a5,a6,a7,a8,a9]" by (elim exE)
  then show ?thesis by (simp add: matchDMY_def formDMY_def)
next
  case False
  then show ?thesis
    using formDMY_len [of s] by (auto simp: matchDMY_def)
qed

lemma digit_val: "isDigit c \<Longrightarrow> 0 \<le> int (of_char c) - 48 \<and> int (of_char c) - 48 \<le> 9"
  by (auto simp: isDigit_def)

lemma digitsVal2: "isDigit a \<Longrightarrow> isDigit b \<Longrightarrow> 0 \<le> digitsVal [a, b] \<and> digitsVal [a, b] \<le> 99"
  using digit_val [of a] digit_val [of b] by (simp add: digitsVal_def)

lemma digitsVal4:
  "isDigit a \<Longrightarrow> isDigit b \<Longrightarrow> isDigit c \<Longrightarrow> isDigit d \<Longrightarrow>
   0 \<le> digitsVal [a, b, c, d] \<and> digitsVal [a, b, c, d] \<le> 9999"
  using digit_val [of a] digit_val [of b] digit_val [of c] digit_val [of d]
  by (simp add: digitsVal_def)

lemma monthStart_bounds: "0 \<le> mn \<Longrightarrow> mn < 12 \<Longrightarrow> 0 \<le> monthStart mn leap \<and> monthStart mn leap \<le> 335"
proof -
  assume "0 \<le> mn" "mn < 12"
  then have "mn = 0 \<or> mn = 1 \<or> mn = 2 \<or> mn = 3 \<or> mn = 4 \<or> mn = 5 \<or> mn = 6 \<or> mn = 7
     \<or> mn = 8 \<or> mn = 9 \<or> mn = 10 \<or> mn = 11" by arith
  then show ?thesis
    by (elim disjE) (simp_all add: monthStart_def)
qed

lemma div_between:
  fixes x :: int
  assumes "lo \<le> x" "x \<le> hi" "0 < k"
  shows "lo div k \<le> x div k \<and> x div k \<le> hi div k"
  using assms by (simp add: zdiv_mono1)

lemma DayFromYear_bounds:
  assumes "99 \<le> y" "y \<le> 10007"
  shows "- 700000 \<le> DayFromYear y \<and> DayFromYear y \<le> 3000000"
proof -
  have a: "(- 1870) div 4 \<le> (y - 1969) div 4 \<and> (y - 1969) div 4 \<le> 8038 div 4"
    using assms by (intro div_between) simp_all
  have b: "(- 1802) div 100 \<le> (y - 1901) div 100 \<and> (y - 1901) div 100 \<le> 8106 div 100"
    using assms by (intro div_between) simp_all
  have c: "(- 1502) div 400 \<le> (y - 1601) div 400 \<and> (y - 1601) div 400 \<le> 8406 div 400"
    using assms by (intro div_between) simp_all
  show ?thesis
    unfolding DayFromYear_def using a b c assms by simp
qed

lemma MakeDay_bounds:
  assumes "100 \<le> y" "y \<le> 9999" "- 1 \<le> m" "m \<le> 98" "0 \<le> d" "d \<le> 99"
  shows "\<bar>MakeDay y m d\<bar> \<le> 100000000"
proof -
  have ym: "99 \<le> y + m div 12 \<and> y + m div 12 \<le> 10007"
    using assms div_between [of "- 1" m 98 12] by simp
  have mn: "0 \<le> m mod 12 \<and> m mod 12 < 12" by simp
  from DayFromYear_bounds [of "y + m div 12"] ym
  have a: "- 700000 \<le> DayFromYear (y + m div 12) \<and> DayFromYear (y + m div 12) \<le> 3000000" by simp
  from monthStart_bounds [of "m mod 12" "InLeapYear (y + m div 12)"] mn
  have b: "0 \<le> monthStart (m mod 12) (InLeapYear (y + m div 12)) \<and>
           monthStart (m mod 12) (InLeapYear (y + m div 12)) \<le> 335" by simp
  define A where "A = DayFromYear (y + m div 12)"
  define B where "B = monthStart (m mod 12) (InLeapYear (y + m div 12))"
  have "MakeDay y m d = A + B + d - 1"
    by (simp add: MakeDay_def Let_def A_def B_def)
  moreover have "- 700000 \<le> A \<and> A \<le> 3000000 \<and> 0 \<le> B \<and> B \<le> 335"
    using a b by (simp add: A_def B_def)
  ultimately show ?thesis using assms by linarith
qed

lemma Date_UTC_total:
  assumes "0 \<le> y" "y \<le> 9999" "- 1 \<le> m" "m \<le> 98" "0 \<le> d" "d \<le> 99"
  shows "Date_UTC y m d = Some (MakeDay (if y \<le> 99 then 1900 + y else y) m d * msPerDay)"
proof -
  let ?yr = "if y \<le> 99 then 1900 + y else y"
  have "100 \<le> ?yr \<and> ?yr \<le> 9999" using assms by simp
  with MakeDay_bounds [of ?yr m d] assms have "\<bar>MakeDay ?yr m d\<bar> \<le> 100000000" by simp
  then have "\<bar>MakeDay ?yr m d * msPerDay\<bar> \<le> 8640000000000000"
    by (simp add: msPerDay_def abs_mult)
  with assms show ?thesis by (simp add: Date_UTC_def Let_def)
qed

lemma digit_not_ws: "isDigit c \<Longrightarrow> \<not> ascii_ws c"
  by (auto simp: isDigit_def ascii_ws_def)

lemma dropWs_digit:
  assumes "isDigit c" and "\<forall>w\<in>set pats. w = [] \<or> \<not> isDigit (hd w)"
  shows "dropWs pats (c # cs) = c # cs"
proof -
  have "find (\<lambda>w. w \<noteq> [] \<and> prefix w (c # cs)) pats = None"
  proof -
    { fix w assume w: "w \<in> set pats" "w \<noteq> []" "prefix w (c # cs)"
      from w(2,3) have "hd w = c" by (cases w) auto
      with assms w have False by auto }
    then show ?thesis by (auto simp: find_None_iff)
  qed
  then show ?thesis
    using digit_not_ws [OF assms(1)] by (subst dropWs.simps) simp
qed

lemma wide_ws_no_digit: "\<forall>w\<in>set wide_ws. w = [] \<or> \<not> isDigit (hd w)"
  by (simp add: wide_ws_def isDigit_def)

lemma wide_ws_rev_no_digit: "\<forall>w\<in>set (map rev wide_ws). w = [] \<or> \<not> isDigit (hd w)"
  by (simp add: wide_ws_def isDigit_def)

lemma trim_digits:
  assumes "s \<noteq> []" "isDigit (hd s)" "isDigit (last s)"
  shows "trim s = s"
proof -
  from assms obtain c cs where s: "s = c # cs" and c: "isDigit c" by (cases s) auto
  have 1: "dropWs wide_ws s = s"
    unfolding s using dropWs_digit [OF c wide_ws_no_digit] .
  have r: "rev s = last s # rev (butlast s)"
    using assms(1) by (metis append_butlast_last_id rev.simps(2) rev_swap rev_append)
  have 2: "dropWs (map rev wide_ws) (rev s) = rev s"
    unfolding r using dropWs_digit [OF assms(3) wide_ws_rev_no_digit] .
  show ?thesis by (simp add: trim_def 1 2)
qed

lemma trim_formYMD: "formYMD s \<Longrightarrow> trim s = s"
  using formYMD_len [of s] len10 [of s]
  by (auto simp: formYMD_def intro!: trim_digits)

lemma trim_formDMY: "formDMY s \<Longrightarrow> trim s = s"
  using formDMY_len [of s] len10 [of s]
  by (auto simp: formDMY_def intro!: trim_digits)

lemma Date_UTC_day: "Date_UTC y m d = Some t \<Longrightarrow> t mod msPerDay = 0"
  by (auto simp: Date_UTC_def Let_def split: if_splits)

lemma formDMY_not_YMD: "formDMY s \<Longrightarrow> \<not> formYMD s"
  using formDMY_len [of s] len10 [of s]
  by (auto simp: formDMY_def formYMD_def isDigit_def)

lemma fullYear_range: "0 \<le> y \<Longrightarrow> fullYear y = (if y \<le> 99 then 1900 + y else y)"
  by (simp add: fullYear_def)

lemma parse_YMD_value:
  assumes "formYMD s" and "written s = (Y, M, D)"
  shows "parseDatePT (Some s) = Some (MakeDay (fullYear Y) (M - 1) D * msPerDay)"
proof -
  from formYMD_len [OF assms(1)] len10 [of s] obtain y1 y2 y3 y4 h1 m1 m2 h2 d1 d2
    where s: "s = [y1, y2, y3, y4, h1, m1, m2, h2, d1, d2]" by auto
  from assms(1) have dg: "isDigit y1" "isDigit y2" "isDigit y3" "isDigit y4"
    "isDigit m1" "isDigit m2" "isDigit d1" "isDigit d2" "h1 = CHR ''-''" "h2 = CHR ''-''"
    by (simp_all add: s formYMD_def)
  from assms have w: "Y = digitsVal [y1, y2, y3, y4]" "M = digitsVal [m1, m2]" "D = digitsVal [d1, d2]"
    by (simp_all add: written_def s)
  have m: "matchYMD s = Some ([y1, y2, y3, y4], [m1, m2], [d1, d2])"
    using dg by (simp add: matchYMD_def s)
  have c: "clean (Some s) = s" using trim_formYMD [OF assms(1)] by (simp add: clean_def)
  have ne: "s \<noteq> []" by (simp add: s)
  have b: "0 \<le> Y" "Y \<le> 9999" "- 1 \<le> M - 1" "M - 1 \<le> 98" "0 \<le> D" "D \<le> 99"
    using digitsVal4 [OF dg(1-4)] digitsVal2 [OF dg(5,6)] digitsVal2 [OF dg(7,8)] by (simp_all add: w)
  have "parseDatePT (Some s) = Date_UTC Y (M - 1) D"
    by (simp add: parseDatePT_def c ne m w)
  also have "\<dots> = Some (MakeDay (fullYear Y) (M - 1) D * msPerDay)"
    using Date_UTC_total [OF b] fullYear_range [OF b(1)] by simp
  finally show ?thesis .
qed

lemma parse_DMY_value:
  assumes "formDMY s" and "written s = (Y, M, D)"
  shows "parseDatePT (Some s) = Some (MakeDay (fullYear Y) (M - 1) D * msPerDay)"
proof -
  from formDMY_len [OF assms(1)] len10 [of s] obtain d1 d2 s1 m1 m2 s2 y1 y2 y3 y4
    where s: "s = [d1, d2, s1, m1, m2, s2, y1, y2, y3, y4]" by auto
  from assms(1) have dg: "isDigit y1" "isDigit y2" "isDigit y3" "isDigit y4"
    "isDigit m1" "isDigit m2" "isDigit d1" "isDigit d2" "isSep s1" "isSep s2"
    by (simp_all add: s formDMY_def)
  have ny: "\<not> formYMD s" using formDMY_not_YMD [OF assms(1)] .
  from assms ny have w: "Y = digitsVal [y1, y2, y3, y4]" "M = digitsVal [m1, m2]" "D = digitsVal [d1, d2]"
    by (simp_all add: written_def s)
  have m0: "matchYMD s = None" using ny matchYMD_form [of s] by blast
  have m: "matchDMY s = Some ([d1, d2], [m1, m2], [y1, y2, y3, y4])"
    using dg by (simp add: matchDMY_def s)
  have c: "clean (Some s) = s" using trim_formDMY [OF assms(1)] by (simp add: clean_def)
  have ne: "s \<noteq> []" by (simp add: s)
  have b: "0 \<le> Y" "Y \<le> 9999" "- 1 \<le> M - 1" "M - 1 \<le> 98" "0 \<le> D" "D \<le> 99"
    using digitsVal4 [OF dg(1-4)] digitsVal2 [OF dg(5,6)] digitsVal2 [OF dg(7,8)] by (simp_all add: w)
  have "parseDatePT (Some s) = Date_UTC Y (M - 1) D"
    by (simp add: parseDatePT_def c ne m m0 w)
  also have "\<dots> = Some (MakeDay (fullYear Y) (M - 1) D * msPerDay)"
    using Date_UTC_total [OF b] fullYear_range [OF b(1)] by simp
  finally show ?thesis .
qed

lemma MakeDay_carry: "MakeDay y m d = MakeDay (y + m div 12) (m mod 12) 1 + (d - 1)"
  by (simp add: MakeDay_def Let_def)

text \<open>
  Claim C9, as amended. A string of one of the two digit patterns always parses, also when
  the day or the month it writes is out of range. The result is the first day of the
  calendar month found by carrying the months beyond twelve into the years, moved by the
  written day minus one; the written years 0 to 99 stand for 1900 to 1999. The result need
  not lie in the month or year next to the written one.
\<close>

theorem parseDatePT_rolls_over:
  assumes "formYMD s \<or> formDMY s" and "written s = (Y, M, D)"
  shows "parseDatePT (Some s) =
           Some ((MakeDay (fullYear Y + (M - 1) div 12) ((M - 1) mod 12) 1 + (D - 1)) * msPerDay)"
  using assms parse_YMD_value [of s Y M D] parse_DMY_value [of s Y M D]
    MakeDay_carry [of "fullYear Y" "M - 1" D]
  by auto

theorem parseDatePT_rolls_over_witness:
  "(formYMD ''31-02-2024'' \<or> formDMY ''31-02-2024'') \<and> written ''31-02-2024'' = (2024, 2, 31) \<and>
   parseDatePT (Some ''31-02-2024'') = Some 1709337600000 \<and>
   parseDatePT (Some ''02-03-2024'') = Some 1709337600000 \<and>
   isoDateUTC (Some 1709337600000) = ''2024-03-02''"
proof -
  have f: "formYMD ''31-02-2024'' \<or> formDMY ''31-02-2024''" by code_simp
  have w: "written ''31-02-2024'' = (2024, 2, 31)" by code_simp
  have v: "(MakeDay (fullYear 2024 + (2 - 1) div 12) ((2 - 1) mod 12) 1 + (31 - 1)) * msPerDay = 1709337600000"
    by code_simp
  have a: "parseDatePT (Some ''02-03-2024'') = Some 1709337600000" by code_simp
  have i: "isoDateUTC (Some 1709337600000) = ''2024-03-02''" by code_simp
  from parseDatePT_rolls_over [OF f w] v f w a i show ?thesis by simp
qed

text \<open>
  Claim C9 as stated fails: \<^verbatim>\<open>99-99-2024\<close> parses as a day of June 2032, eight years
  after the written year, and \<^verbatim>\<open>31-02-0024\<close> as a day of 1924.
\<close>

theorem parseDatePT_not_adjacent:
  "isoDateUTC (parseDatePT (Some ''99-99-2024'')) = ''2032-06-07'' \<and>
   isoDateUTC (parseDatePT (Some ''31-02-0024'')) = ''1924-03-02''"
  by code_simp

text \<open>
  Claim C8, as amended. \<open>parseDatePT\<close> accepts a value exactly when, with the white space
  at both ends removed, it has the form \<^verbatim>\<open>YYYY-MM-DD\<close>, or the form of day, month and
  year with two separators that are each a hyphen or a slash (the two may differ). An
  accepted date is a whole number of days since the epoch in UTC: it has no time of day.
  Any other value gives \<open>None\<close>, the \<^verbatim>\<open>null\<close> of the source; the function raises nothing.
\<close>

theorem parseDatePT_accepts:
  "(parseDatePT x \<noteq> None \<longleftrightarrow> formYMD (clean x) \<or> formDMY (clean x)) \<and>
   (\<forall>t. parseDatePT x = Some t \<longrightarrow> t mod msPerDay = 0)"
proof
  show "parseDatePT x \<noteq> None \<longleftrightarrow> formYMD (clean x) \<or> formDMY (clean x)"
  proof
    assume "parseDatePT x \<noteq> None"
    then have "matchYMD (clean x) \<noteq> None \<or> matchDMY (clean x) \<noteq> None"
      by (auto simp: parseDatePT_def Let_def split: if_splits option.splits)
    then show "formYMD (clean x) \<or> formDMY (clean x)"
      using matchYMD_form [of "clean x"] matchDMY_form [of "clean x"] by blast
  next
    assume f: "formYMD (clean x) \<or> formDMY (clean x)"
    obtain Y M D where w: "written (clean x) = (Y, M, D)" by (cases "written (clean x)") auto
    have t: "trim (clean x) = clean x" using f trim_formYMD trim_formDMY by blast
    have "parseDatePT (Some (clean x)) = parseDatePT x"
      by (simp add: parseDatePT_def clean_def t [unfolded clean_def])
    moreover have "parseDatePT (Some (clean x)) \<noteq> None"
      using f w parse_YMD_value [of "clean x" Y M D] parse_DMY_value [of "clean x" Y M D] by auto
    ultimately show "parseDatePT x \<noteq> None" by simp
  qed
next
  show "\<forall>t. parseDatePT x = Some t \<longrightarrow> t mod msPerDay = 0"
    by (auto simp: parseDatePT_def Let_def split: if_splits option.splits dest: Date_UTC_day)
qed

theorem parseDatePT_accepts_witness:
  "formDMY (clean (Some '' 01/03/2024 '')) \<and> parseDatePT (Some '' 01/03/2024 '') = Some 1709251200000 \<and>
   (1709251200000 :: int) mod msPerDay = 0"
proof -
  have f: "formDMY (clean (Some '' 01/03/2024 ''))" by code_simp
  have v: "parseDatePT (Some '' 01/03/2024 '') = Some 1709251200000" by code_simp
  from parseDatePT_accepts [of "Some '' 01/03/2024 ''"] f v show ?thesis by simp
qed

text \<open>
  Claim C8 as stated fails: \<^verbatim>\<open>01-03/2024\<close>, which mixes a hyphen and a slash, is
  accepted.
\<close>

theorem parseDatePT_mixed_separators:
  "parseDatePT (Some ''01-03/2024'') = Some 1709251200000 \<and>
   \<not> formYMD ''01-03/2024'' \<and> \<not> formDMYsame ''01-03/2024''"
  by code_simp

subsection \<open>The growth-rate sample\<close>

text \<open>
  Claim C2. The sample of a row is the difference of the two weights divided by the days
  between the two dates when both dates and both weights parse and the days are more
  than 0; in every other case it is \<open>NaN\<close>.
\<close>

theorem growth_rate_sample:
  "let cols = split_on delim line;
       da = parseDatePT (nth_opt cols (i_dant ix)); pa = parseNumber (nth_opt cols (i_pant ix));
       dt = parseDatePT (nth_opt cols (i_datual ix)); pt = parseNumber (nth_opt cols (i_patual ix))
   in gmdInd (parseRow ix delim line) =
        (case (da, pa, dt, pt) of
           (Some ta, Fin p, Some tb, Fin c) \<Rightarrow>
             if 0 < (tb - ta) div msPerDay then Fin ((c - p) / of_int ((tb - ta) div msPerDay)) else NaN
         | _ \<Rightarrow> NaN)"
  by (simp add: parseRow_def gmdIndOf_def daysBetweenUTC_def num_gt_def Let_def
        split: option.splits num.splits)

theorem growth_rate_sample_witness:
  "gmdInd (parseRow \<lparr> i_animal = 0, i_sexo = 1, i_grupo = 2, i_dant = 3, i_pant = 4, i_datual = 5,
                       i_patual = 6 \<rparr> (CHR '';'') ''A1;M;G1;01-01-2024;400;01-03-2024;460'') = Fin 1"
proof -
  have c: "split_on (CHR '';'') ''A1;M;G1;01-01-2024;400;01-03-2024;460'' =
             [''A1'', ''M'', ''G1'', ''01-01-2024'', ''400'', ''01-03-2024'', ''460'']"
    by code_simp
  have d1: "parseDatePT (Some ''01-01-2024'') = Some 1704067200000" by code_simp
  have d2: "parseDatePT (Some ''01-03-2024'') = Some 1709251200000" by code_simp
  have n1: "parseNumber (Some ''400'') = Fin 400" by code_simp
  have n2: "parseNumber (Some ''460'') = Fin 460" by code_simp
  from growth_rate_sample [of "CHR '';''" "''A1;M;G1;01-01-2024;400;01-03-2024;460''"
      "\<lparr> i_animal = 0, i_sexo = 1, i_grupo = 2, i_dant = 3, i_pant = 4, i_datual = 5, i_patual = 6 \<rparr>"]
  show ?thesis
    by (simp only: Let_def c) (simp add: nth_opt_def d1 d2 n1 n2 msPerDay_def)
qed

end
